theory Spec2Isabelle
  imports Main "HOL-Library.Sublist" "HOL-Library.AList"
begin

section \<open>Python values\<close>

text \<open>
  The gateway passes JSON-like data around: manifests, request payloads, handler results.
  They are modelled by one datatype of Python values. A dict is an association list in
  insertion order. A string is the sequence of the bytes of its UTF-8 encoding: the tests
  for a slash or for a substring and the slices that the code takes give the same on the
  bytes as on the code points.
\<close>

datatype pyval =
    PNone
  | PBool bool
  | PInt int
  | PStr string
  | PList "pyval list"
  | PDict "(string \<times> pyval) list"

type_synonym pydict = "(string \<times> pyval) list"

text \<open>Python's truth value of an object, as used by \<open>if x\<close> and \<open>not x\<close>.\<close>

fun truthy :: "pyval \<Rightarrow> bool" where
  "truthy PNone = False"
| "truthy (PBool b) = b"
| "truthy (PInt i) = (i \<noteq> 0)"
| "truthy (PStr s) = (s \<noteq> [])"
| "truthy (PList xs) = (xs \<noteq> [])"
| "truthy (PDict kvs) = (kvs \<noteq> [])"

text \<open>\<open>d.get(k)\<close>, \<open>k in d\<close> and \<open>d[k] = v\<close> on a dict.\<close>

definition dict_get :: "pydict \<Rightarrow> string \<Rightarrow> pyval" where
  "dict_get d k = (case map_of d k of None \<Rightarrow> PNone | Some v \<Rightarrow> v)"

definition dict_has :: "pydict \<Rightarrow> string \<Rightarrow> bool" where
  "dict_has d k = (case map_of d k of None \<Rightarrow> False | Some v \<Rightarrow> True)"

definition dict_set :: "('k \<times> 'v) list \<Rightarrow> 'k \<Rightarrow> 'v \<Rightarrow> ('k \<times> 'v) list" where
  "dict_set d k v = AList.update k v d"

text \<open>\<open>sub in s\<close> on strings: the substring test, scanning the start positions.\<close>

fun str_contains :: "string \<Rightarrow> string \<Rightarrow> bool" where
  "str_contains sub [] = (sub = [])"
| "str_contains sub (c # cs) = (if prefix sub (c # cs) then True else str_contains sub cs)"

text \<open>\<open>s.startswith(t)\<close> and \<open>s.endswith(t)\<close>.\<close>

definition startswith :: "string \<Rightarrow> string \<Rightarrow> bool" where
  "startswith s t = prefix t s"

definition endswith :: "string \<Rightarrow> string \<Rightarrow> bool" where
  "endswith s t = prefix (rev t) (rev s)"

text \<open>
  \<open>s.upper()\<close> and \<open>s.lower()\<close> follow the case tables of Unicode, which belong to the
  Python runtime and not to the repository (\<open>lower\<close> maps the Kelvin sign U+212A to
  \<open>k\<close>, \<open>upper\<close> maps the long s U+017F to \<open>S\<close>). The functions that fold a string take the
  folding as a parameter. \<open>ascii_upper\<close> and \<open>ascii_lower\<close> are the two foldings on strings
  of ASCII characters, where they replace the letters and keep every other character; the
  example inputs use them.
\<close>

definition ascii_upper_char :: "char \<Rightarrow> char" where
  "ascii_upper_char c =
     (case map_of (zip ''abcdefghijklmnopqrstuvwxyz'' ''ABCDEFGHIJKLMNOPQRSTUVWXYZ'') c of
        None \<Rightarrow> c
      | Some u \<Rightarrow> u)"

definition ascii_lower_char :: "char \<Rightarrow> char" where
  "ascii_lower_char c =
     (case map_of (zip ''ABCDEFGHIJKLMNOPQRSTUVWXYZ'' ''abcdefghijklmnopqrstuvwxyz'') c of
        None \<Rightarrow> c
      | Some l \<Rightarrow> l)"

definition ascii_upper :: "string \<Rightarrow> string" where
  "ascii_upper s = map ascii_upper_char s"

definition ascii_lower :: "string \<Rightarrow> string" where
  "ascii_lower s = map ascii_lower_char s"

text \<open>
  Exceptions are values. \<open>Raised msg\<close> is an exception of a class derived from
  \<open>Exception\<close> that code outside the gateway (an engine, a plugin, a route module) raises,
  with \<open>str(e) = msg\<close>. \<open>ValidationError\<close> is the error of the model library for a field
  value that it refuses. \<open>SystemExit\<close> and \<open>KeyboardInterrupt\<close> are derived from
  \<open>BaseException\<close> only: a handler \<open>except Exception\<close> does not catch them.
\<close>

datatype py_error =
    TypeError
  | AttributeError
  | KeyError string
  | ValueError
  | AssertionError
  | PermissionError string
  | JSONDecodeError string
  | ValidationError
  | Raised string
  | SystemExit
  | KeyboardInterrupt

text \<open>\<open>isinstance(e, Exception)\<close>: whether \<open>except Exception\<close> catches the exception.\<close>

fun is_Exception :: "py_error \<Rightarrow> bool" where
  "is_Exception SystemExit = False"
| "is_Exception KeyboardInterrupt = False"
| "is_Exception e = True"

text \<open>\<open>k in v\<close> and \<open>v.get(k, default)\<close>, for any value \<open>v\<close>.\<close>

fun py_in :: "string \<Rightarrow> pyval \<Rightarrow> py_error + bool" where
  "py_in k (PDict d) = Inr (dict_has d k)"
| "py_in k (PList xs) = Inr (PStr k \<in> set xs)"
| "py_in k (PStr s) = Inr (str_contains k s)"
| "py_in k PNone = Inl TypeError"
| "py_in k (PBool b) = Inl TypeError"
| "py_in k (PInt i) = Inl TypeError"

fun py_get :: "pyval \<Rightarrow> string \<Rightarrow> pyval \<Rightarrow> py_error + pyval" where
  "py_get (PDict d) k dflt = Inr (case map_of d k of None \<Rightarrow> dflt | Some v \<Rightarrow> v)"
| "py_get v k dflt = Inl AttributeError"

text \<open>
  A result dict is built by the code, as the validation result
  \<open>{"valid": ..., "reason": ...}\<close>. An entry is a truth value, a text, an f-string
  \<open>f"{text}{value}"\<close> whose interpolated value is kept unrendered, a value taken over
  from the data, or the message \<open>str(e)\<close> of an exception.
\<close>

datatype rval = RBool bool | RStr string | RFmt string pyval | RVal pyval | RErr py_error

type_synonym vresult = "(string \<times> rval) list"

definition dict_truthy :: "('k \<times> 'v) list \<Rightarrow> bool" where
  "dict_truthy d = (d \<noteq> [])"

definition res_valid :: "vresult \<Rightarrow> bool" where
  "res_valid r = (case map_of r ''valid'' of Some (RBool b) \<Rightarrow> b | _ \<Rightarrow> False)"

section \<open>API mapper: path normalisation\<close>

text \<open>
  \<open>APIMapper._normalize_path\<close> (api_mapper.py): the empty path stays empty, a missing
  leading slash is added, and one trailing slash is removed unless the path is the root.
\<close>

definition normalize_path :: "string \<Rightarrow> string" where
  "normalize_path path =
     (if path = [] then []
      else let p1 = (if startswith path ''/'' then path else ''/'' @ path)
           in if p1 \<noteq> ''/'' \<and> endswith p1 ''/'' then butlast p1 else p1)"

section \<open>Manifest standards\<close>

text \<open>\<open>ServiceStandard\<close> (standards.py).\<close>

definition REQUIRED_FIELDS :: "string list" where
  "REQUIRED_FIELDS = [''service_id'', ''service_name'', ''version'']"

definition DATABASE_REQUIRED_FIELDS :: "string list" where
  "DATABASE_REQUIRED_FIELDS = [''type'']"

definition API_REQUIRED_FIELDS :: "string list" where
  "API_REQUIRED_FIELDS = [''path'', ''method'']"

text \<open>
  \<open>_check_required_fields\<close>, the same in both classes: the loop over the field names
  returns a result dict at the first missing field, and \<open>{"valid": True}\<close> after the loop.
\<close>

fun check_required_fields :: "pyval \<Rightarrow> string list \<Rightarrow> py_error + vresult" where
  "check_required_fields config [] = Inr [(''valid'', RBool True)]"
| "check_required_fields config (field # fields) =
     (case py_in field config of
        Inl e \<Rightarrow> Inl e
      | Inr present \<Rightarrow>
          if present then check_required_fields config fields
          else Inr [(''valid'', RBool False),
                    (''reason'', RStr (''Missing required field: '' @ field))])"

definition check_service_id_format :: "pyval \<Rightarrow> py_error + vresult" where
  "check_service_id_format service_json =
     (case py_get service_json ''service_id'' PNone of
        Inl e \<Rightarrow> Inl e
      | Inr service_id \<Rightarrow>
          if truthy service_id then Inr [(''valid'', RBool True)]
          else Inr [(''valid'', RBool False), (''reason'', RStr ''Missing service_id'')])"

text \<open>\<open>ServiceStandard._validate_database_config\<close>.\<close>

definition validate_database_config :: "pyval \<Rightarrow> py_error + vresult" where
  "validate_database_config database_config =
     (case database_config of
        PDict d \<Rightarrow>
          (case check_required_fields database_config DATABASE_REQUIRED_FIELDS of
             Inl e \<Rightarrow> Inl e
           | Inr result \<Rightarrow>
               if res_valid result then
                 (let db_type = dict_get d ''type'' in
                  if truthy db_type then
                    (if db_type \<in> set [PStr ''sqlite'', PStr ''mysql'', PStr ''postgresql'']
                     then Inr [(''valid'', RBool True)]
                     else Inr [(''valid'', RBool False),
                               (''reason'', RFmt ''Unsupported database type: '' db_type)])
                  else Inr [(''valid'', RBool False), (''reason'', RStr ''Missing database type'')])
               else Inr result)
      | _ \<Rightarrow> Inr [(''valid'', RBool False),
                  (''reason'', RStr ''Database config must be a dictionary'')])"

text \<open>The loop of \<open>_validate_apis_config\<close> over the entries of the list.\<close>

fun validate_api_entries :: "pyval list \<Rightarrow> string list \<Rightarrow> py_error + vresult" where
  "validate_api_entries [] required_fields = Inr [(''valid'', RBool True)]"
| "validate_api_entries (api # apis) required_fields =
     (case check_required_fields api required_fields of
        Inl e \<Rightarrow> Inl e
      | Inr result \<Rightarrow>
          if res_valid result then validate_api_entries apis required_fields else Inr result)"

text \<open>
  \<open>ServiceStandard._validate_apis_config(apis, is_engine)\<close>. The class does not define
  \<open>ENGINE_API_REQUIRED_FIELDS\<close>, so the attribute lookup of the engine case raises.
\<close>

definition validate_apis_config :: "pyval \<Rightarrow> bool \<Rightarrow> py_error + vresult" where
  "validate_apis_config apis is_engine =
     (case apis of
        PList xs \<Rightarrow>
          if is_engine then Inl AttributeError
          else validate_api_entries xs API_REQUIRED_FIELDS
      | _ \<Rightarrow> Inr [(''valid'', RBool False), (''reason'', RStr ''APIs must be a list'')])"

text \<open>
  The check of an optional section, as both validators write it:
  \<open>if k in d: result = validate(d[k]); if not result["valid"]: return result\<close>. \<open>Some\<close> is
  the result that the validator returns at once, \<open>None\<close> means that it goes on.
\<close>

definition validate_section ::
  "pydict \<Rightarrow> string \<Rightarrow> (pyval \<Rightarrow> py_error + vresult) \<Rightarrow> py_error + vresult option" where
  "validate_section d k validate =
     (if dict_has d k
      then (case validate (dict_get d k) of
              Inl e \<Rightarrow> Inl e
            | Inr result \<Rightarrow> if res_valid result then Inr None else Inr (Some result))
      else Inr None)"

text \<open>
  \<open>validate_service_json\<close>. The two first checks test the truth value of the result
  dict that the helper returns (\<open>if not cls._check_required_fields(...)\<close>), not its
  \<open>valid\<close> entry.
\<close>

definition validate_service_json :: "pydict \<Rightarrow> py_error + vresult" where
  "validate_service_json service_json =
     (case check_required_fields (PDict service_json) REQUIRED_FIELDS of
        Inl e \<Rightarrow> Inl e
      | Inr r1 \<Rightarrow>
          if dict_truthy r1 then
            (case check_service_id_format (PDict service_json) of
               Inl e \<Rightarrow> Inl e
             | Inr r2 \<Rightarrow>
                 if dict_truthy r2 then
                   (case validate_section service_json ''database'' validate_database_config of
                      Inl e \<Rightarrow> Inl e
                    | Inr (Some result) \<Rightarrow> Inr result
                    | Inr None \<Rightarrow>
                        (case validate_section service_json ''apis''
                                (\<lambda>apis. validate_apis_config apis False) of
                           Inl e \<Rightarrow> Inl e
                         | Inr (Some result) \<Rightarrow> Inr result
                         | Inr None \<Rightarrow>
                             Inr [(''valid'', RBool True),
                                  (''reason'', RStr ''Service JSON format is valid'')]))
                 else Inr [(''valid'', RBool False),
                           (''reason'', RStr ''Invalid service_id format'')])
          else Inr [(''valid'', RBool False), (''reason'', RStr ''Missing required fields'')])"

text \<open>
  \<open>EngineStandard\<close> (standards.py). The class has its own copies of the section
  validators, but none of the attributes \<open>DATABASE_REQUIRED_FIELDS\<close>,
  \<open>API_REQUIRED_FIELDS\<close> and \<open>ENGINE_API_REQUIRED_FIELDS\<close> that they read: a \<open>database\<close>
  section that is a dict and an \<open>apis\<close> section that is a list raise \<open>AttributeError\<close>,
  and the other values give the invalid result of the type test.
\<close>

definition ENGINE_REQUIRED_FIELDS :: "string list" where
  "ENGINE_REQUIRED_FIELDS = [''service_id'', ''service_name'', ''version'', ''engine_type'']"

definition ENGINE_TYPES :: "string list" where
  "ENGINE_TYPES = [''network'', ''kernel'']"

definition engine_validate_database_config :: "pyval \<Rightarrow> py_error + vresult" where
  "engine_validate_database_config database_config =
     (case database_config of
        PDict d \<Rightarrow> Inl AttributeError
      | _ \<Rightarrow> Inr [(''valid'', RBool False),
                  (''reason'', RStr ''Database config must be a dictionary'')])"

definition engine_validate_apis_config :: "pyval \<Rightarrow> py_error + vresult" where
  "engine_validate_apis_config apis =
     (case apis of
        PList xs \<Rightarrow> Inl AttributeError
      | _ \<Rightarrow> Inr [(''valid'', RBool False), (''reason'', RStr ''APIs must be a list'')])"

text \<open>
  \<open>_check_engine_type\<close>: the kind is folded with \<open>str.lower()\<close>, the parameter \<open>lower\<close>,
  and a kind that is not a string has no such method.
\<close>

definition check_engine_type :: "(string \<Rightarrow> string) \<Rightarrow> pydict \<Rightarrow> py_error + vresult" where
  "check_engine_type lower engine_json =
     (case (case map_of engine_json ''engine_type'' of None \<Rightarrow> PStr [] | Some v \<Rightarrow> v) of
        PStr t \<Rightarrow>
          if lower t \<in> set ENGINE_TYPES then Inr [(''valid'', RBool True)]
          else Inr [(''valid'', RBool False),
                    (''reason'', RStr (''Invalid engine type: '' @ lower t @
                                       ''. Must be one of network, kernel''))]
      | _ \<Rightarrow> Inl AttributeError)"

text \<open>
  \<open>validate_engine_json\<close>, with the same tests of the truth value of a result dict as
  \<open>validate_service_json\<close>.
\<close>

definition validate_engine_json :: "(string \<Rightarrow> string) \<Rightarrow> pydict \<Rightarrow> py_error + vresult" where
  "validate_engine_json lower engine_json =
     (case check_required_fields (PDict engine_json) ENGINE_REQUIRED_FIELDS of
        Inl e \<Rightarrow> Inl e
      | Inr r1 \<Rightarrow>
          if dict_truthy r1 then
            (case check_engine_type lower engine_json of
               Inl e \<Rightarrow> Inl e
             | Inr r2 \<Rightarrow>
                 if dict_truthy r2 then
                   (case validate_section engine_json ''database''
                           engine_validate_database_config of
                      Inl e \<Rightarrow> Inl e
                    | Inr (Some result) \<Rightarrow> Inr result
                    | Inr None \<Rightarrow>
                        (case validate_section engine_json ''apis''
                                engine_validate_apis_config of
                           Inl e \<Rightarrow> Inl e
                         | Inr (Some result) \<Rightarrow> Inr result
                         | Inr None \<Rightarrow>
                             Inr [(''valid'', RBool True),
                                  (''reason'', RStr ''Engine JSON format is valid'')]))
                 else Inr [(''valid'', RBool False), (''reason'', RStr ''Invalid engine type'')])
          else Inr [(''valid'', RBool False), (''reason'', RStr ''Missing required fields'')])"

section \<open>Engines\<close>

text \<open>
  \<open>BaseEngine\<close> (BaseEngine/base.py). The record holds the attributes that
  \<open>__init__\<close> sets; the project root, a file-system path, is left out.
  \<open>handle_request_impl\<close> is the subclass's \<open>_handle_request_impl\<close>, code outside the
  gateway that returns a value or raises.
\<close>

record engine =
  service_id :: string
  service_name :: string
  version :: string
  engine_type :: string
  status :: string
  error_message :: "string option"
  allow_direct_call :: bool
  config :: pydict
  handle_request_impl :: "string \<Rightarrow> pydict \<Rightarrow> py_error + pyval"

text \<open>
  \<open>BaseEngine.__init__(service_name, version, engine_type)\<close>. The service id is
  \<open>str(uuid.uuid4())\<close>; the generated identifier is the parameter \<open>uuid\<close>.
\<close>

definition BaseEngine_init ::
  "string \<Rightarrow> (string \<Rightarrow> pydict \<Rightarrow> py_error + pyval) \<Rightarrow> string \<Rightarrow> string \<Rightarrow> string \<Rightarrow> engine" where
  "BaseEngine_init uuid impl service_name' version' engine_type' =
     \<lparr> service_id = uuid,
       service_name = service_name',
       version = version',
       engine_type = engine_type',
       status = ''stopped'',
       error_message = None,
       allow_direct_call = False,
       config = [],
       handle_request_impl = impl \<rparr>"

text \<open>One entry of \<open>inspect.stack()\<close>: the file and the function of a frame.\<close>

record frame =
  frame_filename :: string
  frame_function :: string

definition forwarding_operations :: "string list" where
  "forwarding_operations =
     [''forward_request'', ''send_request'', ''proxy_request'', ''send_async_request'']"

text \<open>
  The loop of \<open>_validate_caller\<close> over the frames of the call stack, from the innermost
  frame to the outermost.
\<close>

fun scan_stack :: "frame list \<Rightarrow> bool" where
  "scan_stack [] = False"
| "scan_stack (frame_info # stack) =
     (if str_contains ''LinkGateway'' (frame_filename frame_info)
         \<or> str_contains ''gateway.py'' (frame_filename frame_info)
      then (if frame_function frame_info \<in> set forwarding_operations then True
            else scan_stack stack)
      else scan_stack stack)"

definition validate_caller :: "engine \<Rightarrow> frame list \<Rightarrow> bool" where
  "validate_caller e stack =
     (if scan_stack stack then True
      else if allow_direct_call e then True
      else False)"

text \<open>
  \<open>handle_request(action, data)\<close> of the base class, called with the stack that
  \<open>inspect.stack()\<close> returns inside it. The error carries the service id that the
  message names.
\<close>

definition handle_request ::
  "engine \<Rightarrow> frame list \<Rightarrow> string \<Rightarrow> pydict \<Rightarrow> py_error + pyval" where
  "handle_request e stack action data =
     (if \<not> validate_caller e stack then Inl (PermissionError (service_id e))
      else handle_request_impl e action data)"

definition get_metadata :: "engine \<Rightarrow> pydict" where
  "get_metadata e =
     [(''service_id'', PStr (service_id e)),
      (''service_name'', PStr (service_name e)),
      (''version'', PStr (version e)),
      (''engine_type'', PStr (engine_type e)),
      (''status'', PStr (status e)),
      (''error_message'', (case error_message e of None \<Rightarrow> PNone | Some m \<Rightarrow> PStr m)),
      (''config'', PDict (config e))]"

section \<open>Service descriptor store\<close>

text \<open>
  The enumerations and the descriptor row of db.py, without the time stamps and the two
  JSON columns of a business. A reason is a text, or an f-string ending in \<open>str(e)\<close> of an
  exception or in an interpolated value.
\<close>

datatype ServiceType = BUSINESS | ENGINE

datatype ServiceStatus = VALID | INVALID | UNKNOWN

datatype EngineType = NETWORK | KERNEL

datatype reason = Text string | ErrText string py_error | ValText string pyval

record db_service =
  db_service_id :: string
  db_service_name :: string
  db_service_type :: ServiceType
  db_version :: string
  db_status :: ServiceStatus
  db_reason :: "reason option"
  db_description :: pyval
  db_business_path :: "string option"
  db_engine_type :: "EngineType option"
  db_engine_path :: "string option"

type_synonym database = "string \<rightharpoonup> db_service"

text \<open>
  \<open>DatabaseManager\<close>: the operations on the table that the registry uses. Each of them
  looks the row up by service id; \<open>update_service_status\<close> and \<open>update_service\<close> leave
  the table as it is when there is no such row. \<open>update_service\<close> sets the columns that
  the given info names: the registry names every column of this model but the business
  path, which keeps its value.
\<close>

definition get_service_db :: "database \<Rightarrow> string \<Rightarrow> db_service option" where
  "get_service_db db sid = db sid"

definition service_exists :: "database \<Rightarrow> string \<Rightarrow> bool" where
  "service_exists db sid = (case db sid of None \<Rightarrow> False | Some s \<Rightarrow> True)"

definition add_service :: "database \<Rightarrow> db_service \<Rightarrow> database" where
  "add_service db info = db(db_service_id info \<mapsto> info)"

definition update_service :: "database \<Rightarrow> string \<Rightarrow> db_service \<Rightarrow> database" where
  "update_service db sid info =
     (case db sid of
        None \<Rightarrow> db
      | Some s \<Rightarrow> db(sid \<mapsto> info\<lparr>db_business_path := db_business_path s\<rparr>))"

definition update_service_status ::
  "database \<Rightarrow> string \<Rightarrow> ServiceStatus \<Rightarrow> reason option \<Rightarrow> database" where
  "update_service_status db sid st r =
     (case db sid of
        None \<Rightarrow> db
      | Some s \<Rightarrow> db(sid \<mapsto> s\<lparr>db_status := st, db_reason := r\<rparr>))"

section \<open>Service registry\<close>

text \<open>
  \<open>ServiceRegistry\<close> (registry.py): the in-memory tables and the database manager,
  which is \<open>None\<close> when the database could not be opened. \<open>services\<close> is a dict in
  insertion order, the order in which \<open>list_services\<close> goes through it. The lists
  \<open>registered_engines\<close> and \<open>registered_businesses\<close>, which only the summary of the log
  reads, are left out.
\<close>

record service_entry =
  se_type :: string
  se_info :: pydict

record registry =
  engines :: "string \<rightharpoonup> engine"
  businesses :: "string \<rightharpoonup> pydict"
  services :: "(string \<times> service_entry) list"
  db_manager :: "database option"

definition get_engine :: "registry \<Rightarrow> string \<Rightarrow> engine option" where
  "get_engine reg engine_id = engines reg engine_id"

text \<open>
  \<open>is_service_allowed(source, target)\<close>. Without a database manager the attribute access
  on \<open>None\<close> raises.
\<close>

definition is_service_allowed :: "registry \<Rightarrow> string \<Rightarrow> string \<Rightarrow> py_error + bool" where
  "is_service_allowed reg source_service_id target_service_id =
     (case db_manager reg of
        None \<Rightarrow> Inl AttributeError
      | Some db \<Rightarrow>
          (case (get_service_db db source_service_id, get_service_db db target_service_id) of
             (Some source_service, Some target_service) \<Rightarrow>
               if db_service_type source_service = ENGINE
                  \<and> db_service_type target_service = ENGINE
               then Inr False
               else Inr True
           | _ \<Rightarrow> Inr False))"

text \<open>
  The health check of the registry that the proxy consults: the in-memory entry first
  (\<open>None\<close> when the service is not in memory), then the database.
\<close>

definition check_memory_service_health :: "registry \<Rightarrow> string \<Rightarrow> bool option" where
  "check_memory_service_health reg sid =
     (case map_of (services reg) sid of
        None \<Rightarrow> None
      | Some service_info \<Rightarrow>
          if map_of (se_info service_info) ''status'' \<noteq> Some (PStr ''valid'') then Some False
          else if se_type service_info \<noteq> ''engine'' then Some True
          else (case engines reg sid of
                  None \<Rightarrow> Some False
                | Some e \<Rightarrow> Some (status e = ''running'')))"

definition check_db_service_health :: "registry \<Rightarrow> string \<Rightarrow> bool" where
  "check_db_service_health reg sid =
     (case db_manager reg of
        None \<Rightarrow> False
      | Some db \<Rightarrow>
          (case get_service_db db sid of
             None \<Rightarrow> False
           | Some service \<Rightarrow> db_status service = VALID))"

definition check_service_health :: "registry \<Rightarrow> string \<Rightarrow> bool" where
  "check_service_health reg sid =
     (case check_memory_service_health reg sid of
        Some is_healthy \<Rightarrow> is_healthy
      | None \<Rightarrow> check_db_service_health reg sid)"

text \<open>
  \<open>update_service_health(service_id, is_healthy, reason)\<close>: the new registry and the
  returned truth value, or the \<open>AttributeError\<close> of a registry without database manager.
  The status is written to the descriptor row; when there is such a row, it is written
  to the in-memory info, to the business info and to the engine instance as well. The
  reason is a text or \<open>None\<close>.
\<close>

definition update_service_health ::
  "registry \<Rightarrow> string \<Rightarrow> bool \<Rightarrow> string option \<Rightarrow> py_error + registry \<times> bool" where
  "update_service_health reg sid is_healthy r =
     (case db_manager reg of
        None \<Rightarrow> Inl AttributeError
      | Some db \<Rightarrow>
          (let st = (if is_healthy then VALID else INVALID);
               db_update_result = service_exists db sid;
               reg1 = reg\<lparr>db_manager :=
                        Some (update_service_status db sid st (map_option Text r))\<rparr>;
               put = (\<lambda>info.
                        (let info1 = dict_set info ''status''
                                       (PStr (if is_healthy then ''valid'' else ''invalid''))
                         in case r of
                              None \<Rightarrow> info1
                            | Some txt \<Rightarrow>
                                if txt \<noteq> [] then dict_set info1 ''reason'' (PStr txt)
                                else info1))
           in case map_of (services reg1) sid of
                None \<Rightarrow> Inr (reg1, db_update_result)
              | Some service_info \<Rightarrow>
                  if \<not> db_update_result then Inr (reg1, db_update_result)
                  else
                    Inr (reg1\<lparr> services := dict_set (services reg1) sid
                                   (service_info\<lparr>se_info := put (se_info service_info)\<rparr>),
                               businesses :=
                                 (case businesses reg1 sid of
                                    None \<Rightarrow> businesses reg1
                                  | Some b \<Rightarrow> (businesses reg1)(sid \<mapsto> put b)),
                               engines :=
                                 (case engines reg1 sid of
                                    None \<Rightarrow> engines reg1
                                  | Some e \<Rightarrow>
                                      (engines reg1)(sid \<mapsto>
                                         e\<lparr>status := (if is_healthy then ''running''
                                                       else ''failed'')\<rparr>)) \<rparr>,
                         db_update_result)))"

section \<open>Engine discovery\<close>

text \<open>
  An engine manifest, as \<open>load_json_file\<close> returns it: the fields are strings when they
  are present, and \<open>engine_json\<close> is the dict that the validator and the registry read.
\<close>

record engine_manifest =
  mf_service_id :: "string option"
  mf_service_name :: "string option"
  mf_version :: "string option"
  mf_engine_type :: "string option"
  mf_description :: "string option"
  mf_database :: "pyval option"
  mf_apis :: "pyval option"

definition opt_entry :: "string \<Rightarrow> pyval option \<Rightarrow> pydict" where
  "opt_entry k v = (case v of None \<Rightarrow> [] | Some x \<Rightarrow> [(k, x)])"

definition engine_json :: "engine_manifest \<Rightarrow> pydict" where
  "engine_json m =
     opt_entry ''service_id'' (map_option PStr (mf_service_id m)) @
     opt_entry ''service_name'' (map_option PStr (mf_service_name m)) @
     opt_entry ''version'' (map_option PStr (mf_version m)) @
     opt_entry ''engine_type'' (map_option PStr (mf_engine_type m)) @
     opt_entry ''description'' (map_option PStr (mf_description m)) @
     opt_entry ''database'' (mf_database m) @
     opt_entry ''apis'' (mf_apis m)"

text \<open>
  What the file system, the module loader and the runtime give to one run of
  \<open>_process_engine\<close>: the outcome of reading the manifest (\<open>None\<close> when no configuration
  file is found), the outcome of importing the implementation file, the identifier that
  \<open>uuid4\<close> produces, and \<open>str.lower()\<close>.

  An engine class constructs through \<open>BaseEngine.__init__\<close>, as both engines of the
  repository do, and its \<open>handle_request\<close> is the one of the base class. Python refuses to
  instantiate a class that leaves an abstract method unimplemented. \<open>cls_start\<close> is the
  run of \<open>start()\<close> on the worker thread: how it ends, after how many seconds, and the
  engine as the registry finds it when \<open>join\<close> returns; a worker that ends with an
  exception leaves the same outcome whatever the class of the exception is.
  \<open>cls_get_api_routes\<close> is the list of route definitions that \<open>get_api_routes()\<close> of an
  instance returns.
\<close>

datatype start_run = Returns nat bool | Raises nat string | Hangs

record engine_class =
  cls_abstract_methods :: "string list"
  cls_handle_request_impl :: "string \<Rightarrow> pydict \<Rightarrow> py_error + pyval"
  cls_start :: "engine \<Rightarrow> start_run \<times> engine"
  cls_get_api_routes :: "pyval list"

datatype json_load = BadJson string | Loaded engine_manifest

datatype module_load = NoSpec | ExecFails py_error | NoEngineClass | FoundClass engine_class

record discovery_env =
  env_engine_dir :: string
  env_engine_path :: string
  env_config :: "json_load option"
  env_module :: module_load
  env_uuid :: string
  env_lower :: "string \<Rightarrow> string"

text \<open>One entry of the discovery result.\<close>

record engine_result =
  r_service_id :: string
  r_service_name :: string
  r_version :: "string option"
  r_engine_type :: "string option"
  r_status :: string
  r_reason :: "reason option"

definition meta_str :: "pydict \<Rightarrow> string \<Rightarrow> string" where
  "meta_str md k = (case map_of md k of Some (PStr s) \<Rightarrow> s | _ \<Rightarrow> [])"

definition res_reason :: "vresult \<Rightarrow> reason" where
  "res_reason r =
     (case map_of r ''reason'' of
        Some (RStr s) \<Rightarrow> Text s
      | Some (RFmt p v) \<Rightarrow> ValText p v
      | _ \<Rightarrow> Text [])"

text \<open>
  \<open>self.db_manager.update_service_status(...)\<close> as the registry calls it: \<open>None\<close> is the
  \<open>AttributeError\<close> of a registry without database manager.
\<close>

definition db_update_status ::
  "registry \<Rightarrow> string \<Rightarrow> ServiceStatus \<Rightarrow> reason \<Rightarrow> registry option" where
  "db_update_status reg sid st r =
     (case db_manager reg of
        None \<Rightarrow> None
      | Some db \<Rightarrow> Some (reg\<lparr>db_manager := Some (update_service_status db sid st (Some r))\<rparr>))"

definition build_engine_error_result ::
  "registry \<Rightarrow> string \<Rightarrow> string \<Rightarrow> reason \<Rightarrow> registry \<times> (py_error + engine_result)" where
  "build_engine_error_result reg sid name r =
     (case db_update_status reg sid INVALID r of
        None \<Rightarrow> (reg, Inl AttributeError)
      | Some reg' \<Rightarrow>
          (reg', Inr \<lparr> r_service_id = sid, r_service_name = name, r_version = None,
                      r_engine_type = None, r_status = ''invalid'', r_reason = Some r \<rparr>))"

text \<open>
  \<open>_start_engine_with_timeout\<close>: the worker thread is joined with the timeout. A thread
  that is still alive, or that recorded an exception, gives \<open>False\<close>; otherwise the value
  that \<open>start()\<close> returned.
\<close>

definition start_engine_with_timeout :: "engine_class \<Rightarrow> engine \<Rightarrow> nat \<Rightarrow> bool \<times> engine" where
  "start_engine_with_timeout cls e timeout =
     (case cls_start cls e of
        (Hangs, e') \<Rightarrow> (False, e')
      | (Returns secs success, e') \<Rightarrow> if timeout < secs then (False, e') else (success, e')
      | (Raises secs msg, e') \<Rightarrow>
          if timeout < secs then (False, e')
          else if msg \<noteq> [] then (False, e')
          else (False, e'))"

text \<open>\<open>_start_engine_safely\<close> logs the outcome and keeps the engine.\<close>

definition start_engine_safely :: "engine_class \<Rightarrow> engine \<Rightarrow> engine" where
  "start_engine_safely cls e = snd (start_engine_with_timeout cls e 30)"

definition create_engine_instance ::
  "engine_class \<Rightarrow> string \<Rightarrow> string \<Rightarrow> string \<Rightarrow> engine_manifest \<Rightarrow> py_error + engine" where
  "create_engine_instance cls uuid service_id' service_name' engine_config =
     (case mf_version engine_config of
        None \<Rightarrow> Inl (KeyError ''version'')
      | Some v \<Rightarrow>
          if cls_abstract_methods cls \<noteq> [] then Inl TypeError
          else
            (let e = BaseEngine_init uuid (cls_handle_request_impl cls) service_id' v ''kernel'';
                 e = e\<lparr>service_name := service_name'\<rparr>
             in case mf_engine_type engine_config of
                  None \<Rightarrow> Inl (KeyError ''engine_type'')
                | Some t \<Rightarrow> Inr (e\<lparr>engine_type := t\<rparr>)))"

definition load_and_validate_engine_config ::
  "(string \<Rightarrow> string) \<Rightarrow> registry \<Rightarrow> json_load \<Rightarrow> string
     \<Rightarrow> registry \<times> (py_error + engine_manifest option)" where
  "load_and_validate_engine_config lower reg load engine_name =
     (case load of
        BadJson msg \<Rightarrow> (reg, Inl (JSONDecodeError msg))
      | Loaded engine_config \<Rightarrow>
          (case validate_engine_json lower (engine_json engine_config) of
             Inl e \<Rightarrow> (reg, Inl e)
           | Inr validation_result \<Rightarrow>
               if \<not> res_valid validation_result then
                 (let sid = (case mf_service_id engine_config of
                               None \<Rightarrow> engine_name | Some s \<Rightarrow> s)
                  in case db_update_status reg sid INVALID (res_reason validation_result) of
                       None \<Rightarrow> (reg, Inl AttributeError)
                     | Some reg' \<Rightarrow> (reg', Inr None))
               else (reg, Inr (Some engine_config))))"

definition load_and_create_engine ::
  "discovery_env \<Rightarrow> registry \<Rightarrow> engine_manifest \<Rightarrow> string
     \<Rightarrow> registry \<times> (py_error + engine option)" where
  "load_and_create_engine env reg engine_config engine_name =
     (let sid = (case mf_service_id engine_config of None \<Rightarrow> engine_name | Some s \<Rightarrow> s);
          name = (case mf_service_name engine_config of None \<Rightarrow> sid | Some s \<Rightarrow> s)
      in case env_module env of
           NoSpec \<Rightarrow>
             (case db_update_status reg sid INVALID (Text ''Failed to load engine module'') of
                None \<Rightarrow> (reg, Inl AttributeError)
              | Some reg' \<Rightarrow> (reg', Inr None))
         | ExecFails e \<Rightarrow> (reg, Inl e)
         | NoEngineClass \<Rightarrow>
             (case db_update_status reg sid INVALID
                     (Text ''No class inheriting from BaseEngine found'') of
                None \<Rightarrow> (reg, Inl AttributeError)
              | Some reg' \<Rightarrow> (reg', Inr None))
         | FoundClass cls \<Rightarrow>
             (case create_engine_instance cls (env_uuid env) sid name engine_config of
                Inl e \<Rightarrow> (reg, Inl e)
              | Inr e \<Rightarrow> (reg, Inr (Some (start_engine_safely cls e)))))"

definition register_engine_to_memory :: "registry \<Rightarrow> pydict \<Rightarrow> engine \<Rightarrow> registry" where
  "register_engine_to_memory reg engine_metadata e =
     reg\<lparr> engines := (engines reg)(meta_str engine_metadata ''service_id'' \<mapsto> e),
          services := dict_set (services reg) (meta_str engine_metadata ''service_id'')
                        \<lparr> se_type = ''engine'', se_info = engine_metadata \<rparr> \<rparr>"

definition EngineType_of :: "string \<Rightarrow> py_error + EngineType" where
  "EngineType_of s =
     (if s = ''network'' then Inr NETWORK
      else if s = ''kernel'' then Inr KERNEL
      else Inl ValueError)"

definition register_engine_to_db ::
  "(string \<Rightarrow> string) \<Rightarrow> registry \<Rightarrow> pydict \<Rightarrow> engine_manifest \<Rightarrow> string
     \<Rightarrow> py_error + registry" where
  "register_engine_to_db lower reg engine_metadata engine_config engine_path =
     (let running = (meta_str engine_metadata ''status'' = ''running'');
          service_status = (if running then VALID else INVALID);
          r = (if running then None
               else Some (Text (''Engine startup failed, current status: '' @
                                meta_str engine_metadata ''status'')))
      in case EngineType_of (lower (meta_str engine_metadata ''engine_type'')) of
           Inl e \<Rightarrow> Inl e
         | Inr kind \<Rightarrow>
             (let db_service_info =
                    \<lparr> db_service_id = meta_str engine_metadata ''service_id'',
                      db_service_name = meta_str engine_metadata ''service_name'',
                      db_service_type = ENGINE,
                      db_version = meta_str engine_metadata ''version'',
                      db_status = service_status,
                      db_reason = r,
                      db_description = (case mf_description engine_config of
                                          None \<Rightarrow> PStr [] | Some d \<Rightarrow> PStr d),
                      db_business_path = None,
                      db_engine_type = Some kind,
                      db_engine_path = Some engine_path \<rparr>
              in case db_manager reg of
                   None \<Rightarrow> Inl AttributeError
                 | Some db \<Rightarrow>
                     if service_exists db (meta_str engine_metadata ''service_id'')
                     then Inr (reg\<lparr>db_manager := Some (update_service db
                                  (meta_str engine_metadata ''service_id'') db_service_info)\<rparr>)
                     else Inr (reg\<lparr>db_manager := Some (add_service db db_service_info)\<rparr>)))"

definition start_and_register_engine ::
  "(string \<Rightarrow> string) \<Rightarrow> registry \<Rightarrow> engine \<Rightarrow> engine_manifest \<Rightarrow> string
     \<Rightarrow> registry \<times> (py_error + pydict)" where
  "start_and_register_engine lower reg e engine_config engine_path =
     (let engine_metadata = get_metadata e;
          reg1 = register_engine_to_memory reg engine_metadata e
      in case register_engine_to_db lower reg1 engine_metadata engine_config engine_path of
           Inl err \<Rightarrow> (reg1, Inl err)
         | Inr reg2 \<Rightarrow> (reg2, Inr engine_metadata))"

text \<open>
  The body of the \<open>try\<close> block of \<open>_process_engine\<close>: an exception, or the reason of an
  early error return, or the entry of a processed engine.
\<close>

definition process_engine_try ::
  "discovery_env \<Rightarrow> registry \<Rightarrow> string \<Rightarrow> json_load
     \<Rightarrow> registry \<times> (py_error + (reason + engine_result))" where
  "process_engine_try env reg engine_name load =
     (case load_and_validate_engine_config (env_lower env) reg load engine_name of
        (reg1, Inl e) \<Rightarrow> (reg1, Inl e)
      | (reg1, Inr None) \<Rightarrow> (reg1, Inr (Inl (Text ''Unknown error'')))
      | (reg1, Inr (Some engine_config)) \<Rightarrow>
          if engine_json engine_config = [] then (reg1, Inr (Inl (Text ''Unknown error'')))
          else
            (case load_and_create_engine env reg1 engine_config engine_name of
               (reg2, Inl e) \<Rightarrow> (reg2, Inl e)
             | (reg2, Inr None) \<Rightarrow> (reg2, Inr (Inl (Text ''Unknown error'')))
             | (reg2, Inr (Some e)) \<Rightarrow>
                 (case start_and_register_engine (env_lower env) reg2 e engine_config
                         (env_engine_path env) of
                    (reg3, Inl err) \<Rightarrow> (reg3, Inl err)
                  | (reg3, Inr engine_metadata) \<Rightarrow>
                      (reg3, Inr (Inr
                         \<lparr> r_service_id = meta_str engine_metadata ''service_id'',
                           r_service_name = meta_str engine_metadata ''service_name'',
                           r_version = Some (meta_str engine_metadata ''version''),
                           r_engine_type = Some (meta_str engine_metadata ''engine_type''),
                           r_status = ''valid'',
                           r_reason = None \<rparr>)))))"

text \<open>
  \<open>_process_engine(engine_name, engine_path)\<close>: the new registry, and the entry of the
  discovery result or the exception that leaves the function. The handlers of the \<open>try\<close>
  block are \<open>except json.JSONDecodeError\<close> and \<open>except Exception\<close>.
\<close>

definition process_engine ::
  "discovery_env \<Rightarrow> registry \<Rightarrow> string \<Rightarrow> registry \<times> (py_error + engine_result)" where
  "process_engine env reg engine_name =
     (case env_config env of
        None \<Rightarrow>
          (case db_update_status reg engine_name INVALID
                  (Text (''Missing engine configuration file. Searched directory: '' @
                         env_engine_dir env)) of
             None \<Rightarrow> (reg, Inl AttributeError)
           | Some reg' \<Rightarrow>
               build_engine_error_result reg' engine_name engine_name
                 (Text (''Missing engine configuration file. Searched directory: '' @
                        env_engine_dir env)))
      | Some load \<Rightarrow>
          (case process_engine_try env reg engine_name load of
             (reg', Inr (Inr result)) \<Rightarrow> (reg', Inr result)
           | (reg', Inr (Inl r)) \<Rightarrow> build_engine_error_result reg' engine_name engine_name r
           | (reg', Inl (JSONDecodeError msg)) \<Rightarrow>
               build_engine_error_result reg' engine_name engine_name
                 (Text (''Invalid engine.json format: '' @ msg))
           | (reg', Inl err) \<Rightarrow>
               if is_Exception err
               then build_engine_error_result reg' engine_name engine_name
                      (ErrText ''Error loading engine: '' err)
               else (reg', Inl err)))"

section \<open>Internal dispatch\<close>

text \<open>
  The envelopes of protocol.py, which are models of the library pydantic. The repository
  pins no version of the library, and two of its behaviours differ between the versions,
  so they are parameters of the model:

  \<^item> \<open>lib_dict_field\<close> is the validation of a value for the field \<open>data\<close>, declared
    \<open>Dict[str, Any]\<close>: the dict that the field holds, or \<open>None\<close> when the library refuses
    the value with a \<open>ValidationError\<close>.

  \<^item> \<open>lib_error_callable\<close> says whether \<open>Response.error\<close> can be called. The class binds
    the name \<open>error\<close> twice, to a field and then to the class method, so in the class
    body the name is annotated and its value is the class method. Version 1 of the
    library takes no field from a name whose value is a method: \<open>Response.error\<close> is the
    class method, and the envelope has no \<open>error\<close> entry. Version 2 takes the field, with
    the method as its default, and removes the attribute from the class:
    \<open>Response.error\<close> raises \<open>AttributeError\<close>.

  The record of an envelope holds the entries \<open>request_id\<close>, \<open>status\<close>, \<open>code\<close> and
  \<open>data\<close>. The time stamp is left out, and so is the \<open>error\<close> entry, which never holds
  a message: under version 1 the argument \<open>error\<close> of the constructor is an extra
  argument, which the model class ignores, and under version 2 the constructor of an error
  envelope is not reached.
\<close>

record model_library =
  lib_dict_field :: "pyval \<Rightarrow> pydict option"
  lib_error_callable :: bool

record request =
  req_request_id :: string
  req_service_id :: string
  req_action :: string
  req_data :: pydict

record response =
  resp_request_id :: string
  resp_status :: string
  resp_code :: int
  resp_data :: pydict

text \<open>\<open>Response.success(request_id, data)\<close>, which passes \<open>data or {}\<close> to the field.\<close>

definition Response_success :: "model_library \<Rightarrow> string \<Rightarrow> pyval \<Rightarrow> py_error + response" where
  "Response_success lib rid data =
     (case lib_dict_field lib (if truthy data then data else PDict []) of
        None \<Rightarrow> Inl ValidationError
      | Some d \<Rightarrow> Inr \<lparr> resp_request_id = rid, resp_status = ''success'', resp_code = 200,
                        resp_data = d \<rparr>)"

text \<open>
  The call \<open>Response.error(request_id, code, error)\<close>: the attribute lookup, and then the
  class method.
\<close>

definition Response_error :: "model_library \<Rightarrow> string \<Rightarrow> int \<Rightarrow> py_error + response" where
  "Response_error lib rid c =
     (if lib_error_callable lib
      then Inr \<lparr> resp_request_id = rid, resp_status = ''error'', resp_code = c,
                 resp_data = [] \<rparr>
      else Inl AttributeError)"

text \<open>\<open>InnerCommunicator\<close> (inner_comm.py).\<close>

record inner_communicator =
  engine_registry :: "string \<rightharpoonup> engine"
  message_queue :: "request list"

text \<open>
  The stack that an engine sees when a method of a gateway module calls its
  \<open>handle_request\<close>: the two frames of base.py, the frame of the calling method, and the
  frames of its callers. \<open>root\<close> is the directory of the installation.
\<close>

definition stack_from :: "string \<Rightarrow> string \<Rightarrow> string \<Rightarrow> frame list \<Rightarrow> frame list" where
  "stack_from root file method callers =
     [\<lparr>frame_filename = root @ ''/BaseEngine/base.py'', frame_function = ''_validate_caller''\<rparr>,
      \<lparr>frame_filename = root @ ''/BaseEngine/base.py'', frame_function = ''handle_request''\<rparr>,
      \<lparr>frame_filename = root @ file, frame_function = method\<rparr>] @ callers"

text \<open>
  \<open>send_request(target_engine_id, action, data)\<close>: the envelope, \<open>None\<close> for an unknown
  target, or the exception that leaves the method. \<open>rid\<close> is the request id that the
  \<open>Request\<close> generates. The \<open>try\<close> block holds the call of the engine and
  \<open>Response.success\<close>; its handler is \<open>except Exception\<close>, and an exception raised inside
  the handler leaves the method.
\<close>

definition send_request ::
  "inner_communicator \<Rightarrow> model_library \<Rightarrow> string \<Rightarrow> string \<Rightarrow> frame list
     \<Rightarrow> string \<Rightarrow> string \<Rightarrow> pydict \<Rightarrow> py_error + response option" where
  "send_request ic lib rid root callers target_engine_id action data =
     (case engine_registry ic target_engine_id of
        None \<Rightarrow> Inr None
      | Some e \<Rightarrow>
          (let req = \<lparr> req_request_id = rid, req_service_id = target_engine_id,
                       req_action = action, req_data = data \<rparr>
           in case (case handle_request e
                           (stack_from root ''/LinkGateway/inner_comm.py'' ''send_request''
                              callers)
                           action data of
                      Inl err \<Rightarrow> Inl err
                    | Inr response_data \<Rightarrow>
                        Response_success lib (req_request_id req) response_data) of
                Inr r \<Rightarrow> Inr (Some r)
              | Inl err \<Rightarrow>
                  if is_Exception err then
                    (case Response_error lib (req_request_id req) 500 of
                       Inl err' \<Rightarrow> Inl err'
                     | Inr r \<Rightarrow> Inr (Some r))
                  else Inl err))"

text \<open>
  \<open>ServiceProxy.forward_request(engine_id, action, data)\<close> (service_proxy.py). The result
  is a dict: the dict that the engine returned, with entries set by the proxy, or an
  error dict. The handler around the call of the engine is \<open>except Exception\<close>; so is the
  handler around the whole body, in which nothing else of this model raises.
\<close>

definition set_default_status :: "vresult \<Rightarrow> vresult" where
  "set_default_status result =
     (case map_of result ''status'' of
        None \<Rightarrow> result @ [(''status'', RStr ''success'')]
      | Some s \<Rightarrow> result)"

definition forward_request ::
  "registry \<Rightarrow> string \<Rightarrow> frame list \<Rightarrow> string \<Rightarrow> string \<Rightarrow> pyval \<Rightarrow> py_error + vresult" where
  "forward_request reg root callers engine_id action data =
     (if engine_id = [] then
        Inr [(''status'', RStr ''error''), (''error'', RStr ''Engine ID cannot be empty'')]
      else if action = [] then
        Inr [(''status'', RStr ''error''), (''error'', RStr ''Action cannot be empty'')]
      else
        (let data' = (case data of PDict d \<Rightarrow> d | v \<Rightarrow> [(''data'', v)])
         in case get_engine reg engine_id of
              None \<Rightarrow>
                Inr [(''status'', RStr ''error''),
                     (''error'', RStr (''Engine '' @ engine_id @ '' not found'')),
                     (''engine_id'', RStr engine_id)]
            | Some e \<Rightarrow>
                if \<not> check_service_health reg engine_id then
                  Inr [(''status'', RStr ''error''),
                       (''error'', RStr (''Engine '' @ engine_id @ '' is not healthy'')),
                       (''engine_id'', RStr engine_id)]
                else
                  (case handle_request e
                          (stack_from root ''/LinkGateway/service_proxy.py'' ''forward_request''
                             callers)
                          action data' of
                     Inr v \<Rightarrow>
                       (let result = (case v of
                                        PDict d \<Rightarrow> map (\<lambda>(k, x). (k, RVal x)) d
                                      | _ \<Rightarrow> [(''result'', RVal v)]);
                            result = set_default_status result;
                            result = dict_set result ''engine_id'' (RStr engine_id)
                        in Inr (dict_set result ''action'' (RStr action)))
                   | Inl err \<Rightarrow>
                       if is_Exception err then
                         Inr [(''status'', RStr ''error''),
                              (''error'', RErr err),
                              (''action'', RStr action),
                              (''engine_id'', RStr engine_id)]
                       else Inl err)))"

text \<open>
  What the claim about the dispatch says of a call whose handler returns the value \<open>v\<close>:
  the status entry of the proxy's result is the one of the handler's dict when it has
  one, and \<open>success\<close> otherwise; a request id is in the result only when the handler's
  dict has one.
\<close>

definition handler_status :: "pyval \<Rightarrow> rval" where
  "handler_status v =
     (case v of
        PDict d \<Rightarrow> (case map_of d ''status'' of None \<Rightarrow> RStr ''success'' | Some s \<Rightarrow> RVal s)
      | _ \<Rightarrow> RStr ''success'')"

definition handler_request_id :: "pyval \<Rightarrow> rval option" where
  "handler_request_id v =
     (case v of
        PDict d \<Rightarrow> map_option RVal (map_of d ''request_id'')
      | _ \<Rightarrow> None)"

section \<open>Plugin pipeline\<close>

text \<open>
  A plugin (plugin.py) with its hook methods; a hook is code outside the gateway that
  returns a value or raises. \<open>plugin_name\<close> is what \<open>get_name()\<close> returns, the name of the
  plugin's class. \<open>PluginManager.plugins\<close> is a dict from plugin names to plugins, kept in
  insertion order, which is the order of registration.
\<close>

record plugin =
  plugin_name :: string
  on_request_incoming :: "pyval \<Rightarrow> py_error + pyval"
  on_service_calling_engine :: "string \<Rightarrow> string \<Rightarrow> string \<Rightarrow> pydict \<Rightarrow> py_error + pyval"
  on_engine_responding :: "string \<Rightarrow> string \<Rightarrow> pydict \<Rightarrow> py_error + pyval"
  on_route_matching :: "string \<Rightarrow> string \<Rightarrow> py_error + pyval"
  on_response_outgoing :: "pyval \<Rightarrow> py_error + pyval"

record plugin_manager =
  plugins :: "(string \<times> plugin) list"

text \<open>
  The outcome of firing a hook: the value that the manager returns or the exception that
  leaves it; the calls that it made, each with the name of the plugin and the way the
  plugin's hook ended, in the order of the calls; and the errors that it logged, each
  with the name of the plugin.
\<close>

type_synonym hook_outcome = "py_error + pyval"

type_synonym notification =
  "hook_outcome \<times> (string \<times> hook_outcome) list \<times> (string \<times> py_error) list"

text \<open>
  The loop of \<open>notify_request_incoming\<close>, \<open>notify_route_matching\<close> and
  \<open>notify_response_outgoing\<close>: each plugin is called inside \<open>try\<close>; a result that is
  not \<open>None\<close> is returned at once; the handler \<open>except Exception\<close> logs the exception and
  the loop goes on; any other exception leaves the loop. After the loop \<open>None\<close> is
  returned.
\<close>

fun notify_until_response :: "(plugin \<Rightarrow> hook_outcome) \<Rightarrow> plugin list \<Rightarrow> notification" where
  "notify_until_response hook [] = (Inr PNone, [], [])"
| "notify_until_response hook (p # ps) =
     (case hook p of
        Inr response \<Rightarrow>
          if response \<noteq> PNone then (Inr response, [(plugin_name p, Inr response)], [])
          else (case notify_until_response hook ps of
                  (r, calls, logged) \<Rightarrow> (r, (plugin_name p, Inr response) # calls, logged))
      | Inl e \<Rightarrow>
          if is_Exception e then
            (case notify_until_response hook ps of
               (r, calls, logged) \<Rightarrow>
                 (r, (plugin_name p, Inl e) # calls, (plugin_name p, e) # logged))
          else (Inl e, [(plugin_name p, Inl e)], []))"

text \<open>
  The loop of \<open>notify_service_calling_engine\<close> and \<open>notify_engine_responding\<close>: the
  result of a plugin is dropped, the handler \<open>except Exception\<close> logs the exception, any
  other exception leaves the loop, and nothing is returned.
\<close>

fun notify_each :: "(plugin \<Rightarrow> hook_outcome) \<Rightarrow> plugin list \<Rightarrow> notification" where
  "notify_each hook [] = (Inr PNone, [], [])"
| "notify_each hook (p # ps) =
     (case hook p of
        Inr response \<Rightarrow>
          (case notify_each hook ps of
             (r, calls, logged) \<Rightarrow> (r, (plugin_name p, Inr response) # calls, logged))
      | Inl e \<Rightarrow>
          if is_Exception e then
            (case notify_each hook ps of
               (r, calls, logged) \<Rightarrow>
                 (r, (plugin_name p, Inl e) # calls, (plugin_name p, e) # logged))
          else (Inl e, [(plugin_name p, Inl e)], []))"

definition notify_request_incoming :: "plugin_manager \<Rightarrow> pyval \<Rightarrow> notification" where
  "notify_request_incoming pm req =
     notify_until_response (\<lambda>p. on_request_incoming p req) (map snd (plugins pm))"

definition notify_service_calling_engine ::
  "plugin_manager \<Rightarrow> string \<Rightarrow> string \<Rightarrow> string \<Rightarrow> pydict \<Rightarrow> notification" where
  "notify_service_calling_engine pm sid engine_id action data =
     notify_each (\<lambda>p. on_service_calling_engine p sid engine_id action data)
       (map snd (plugins pm))"

definition notify_engine_responding ::
  "plugin_manager \<Rightarrow> string \<Rightarrow> string \<Rightarrow> pydict \<Rightarrow> notification" where
  "notify_engine_responding pm engine_id action resp =
     notify_each (\<lambda>p. on_engine_responding p engine_id action resp) (map snd (plugins pm))"

definition notify_route_matching :: "plugin_manager \<Rightarrow> string \<Rightarrow> string \<Rightarrow> notification" where
  "notify_route_matching pm path method =
     notify_until_response (\<lambda>p. on_route_matching p path method) (map snd (plugins pm))"

definition notify_response_outgoing :: "plugin_manager \<Rightarrow> pyval \<Rightarrow> notification" where
  "notify_response_outgoing pm resp =
     notify_until_response (\<lambda>p. on_response_outgoing p resp) (map snd (plugins pm))"

text \<open>
  What the claim about the hooks says, in terms of the way each plugin's hook ends. A
  hook escapes when it raises an exception that is not derived from \<open>Exception\<close>; it
  answers when it returns a value other than \<open>None\<close>. An outcome ends the chain of a
  short-circuiting hook when it answers or escapes, and the chain of an observational
  hook when it escapes.

  For a test \<open>ends\<close> of this kind, \<open>called ends hook ps\<close> are the plugins of the list up
  to and including the first whose hook ends the chain, or all of them; \<open>fired ends hook
  ps\<close> is what the manager gives then: the outcome of that first plugin, or \<open>None\<close> when
  there is none; and \<open>caught hook ps\<close> are the exceptions derived from \<open>Exception\<close> that
  the hooks of a list of plugins raise, each with the name of its plugin.
\<close>

definition escapes :: "hook_outcome \<Rightarrow> bool" where
  "escapes outcome = (case outcome of Inl e \<Rightarrow> \<not> is_Exception e | Inr r \<Rightarrow> False)"

definition answers :: "hook_outcome \<Rightarrow> bool" where
  "answers outcome = (case outcome of Inl e \<Rightarrow> False | Inr r \<Rightarrow> r \<noteq> PNone)"

definition ends_short_circuit :: "hook_outcome \<Rightarrow> bool" where
  "ends_short_circuit outcome = (answers outcome \<or> escapes outcome)"

definition ends_observational :: "hook_outcome \<Rightarrow> bool" where
  "ends_observational outcome = escapes outcome"

definition called ::
  "(hook_outcome \<Rightarrow> bool) \<Rightarrow> (plugin \<Rightarrow> hook_outcome) \<Rightarrow> plugin list \<Rightarrow> plugin list" where
  "called ends hook ps =
     takeWhile (\<lambda>p. \<not> ends (hook p)) ps @ take 1 (dropWhile (\<lambda>p. \<not> ends (hook p)) ps)"

definition fired ::
  "(hook_outcome \<Rightarrow> bool) \<Rightarrow> (plugin \<Rightarrow> hook_outcome) \<Rightarrow> plugin list \<Rightarrow> hook_outcome" where
  "fired ends hook ps =
     (case find (\<lambda>p. ends (hook p)) ps of
        None \<Rightarrow> Inr PNone
      | Some p \<Rightarrow> hook p)"

definition caught :: "(plugin \<Rightarrow> hook_outcome) \<Rightarrow> plugin list \<Rightarrow> (string \<times> py_error) list" where
  "caught hook ps =
     concat (map (\<lambda>p. case hook p of
                         Inl e \<Rightarrow> if is_Exception e then [(plugin_name p, e)] else []
                       | Inr r \<Rightarrow> [])
                 ps)"

text \<open>
  The firing of a hook as the claim describes it: the result, the calls in the order of
  registration with the outcome of each, and the log.
\<close>

definition firing ::
  "(hook_outcome \<Rightarrow> bool) \<Rightarrow> (plugin \<Rightarrow> hook_outcome) \<Rightarrow> plugin list \<Rightarrow> notification" where
  "firing ends hook ps =
     (fired ends hook ps,
      map (\<lambda>p. (plugin_name p, hook p)) (called ends hook ps),
      caught hook (called ends hook ps))"

section \<open>API mapper\<close>

text \<open>
  \<open>APIMapper\<close> (api_mapper.py). A router of the web framework is its prefix and the
  routes added to it. What the mapper takes from outside the repository is given by the
  record \<open>framework\<close>: \<open>fw_accepts_prefix\<close> says whether \<open>APIRouter(prefix=...)\<close> takes a
  prefix, and \<open>fw_accepts_route\<close> whether \<open>router.add_api_route(path, endpoint,
  **kwargs)\<close> takes a route, a refusal being an exception derived from \<open>Exception\<close>;
  \<open>fw_upper\<close> is \<open>str.upper()\<close> of the runtime. An endpoint is known by its \<open>__name__\<close>,
  which a callable may lack.
\<close>

type_synonym endpoint = "string option"

record route =
  route_path :: string
  route_endpoint :: endpoint
  route_kwargs :: pydict

record router =
  router_prefix :: string
  router_routes :: "route list"

record framework =
  fw_accepts_prefix :: "string \<Rightarrow> bool"
  fw_accepts_route :: "string \<Rightarrow> endpoint \<Rightarrow> pydict \<Rightarrow> bool"
  fw_upper :: "string \<Rightarrow> string"

text \<open>An entry of the API registry, without its time stamp.\<close>

record api_info =
  ai_service_id :: string
  ai_path :: string
  ai_full_path :: string
  ai_methods :: "string list"
  ai_endpoint :: string
  ai_description :: pyval
  ai_tags :: pyval
  ai_responses :: pyval
  ai_request_body :: pyval
  ai_parameters :: pyval
  ai_summary :: pyval

record registered_api =
  ra_service_id :: string
  ra_path :: string
  ra_methods :: "string list"
  ra_endpoint :: string

text \<open>
  The state of the mapper. The registry is a dict keyed by the full path, in insertion
  order. \<open>main_router\<close> holds the routers that were included in the main router, which
  the gateway mounts on the application.
\<close>

record api_mapper =
  routers :: "string \<rightharpoonup> router"
  main_router :: "router list"
  api_registry :: "(string \<times> api_info) list"
  registered_apis :: "registered_api list"

definition check_path_conflict :: "api_mapper \<Rightarrow> string \<Rightarrow> string list \<Rightarrow> string \<Rightarrow> bool" where
  "check_path_conflict m full_path methods sid =
     (case map_of (api_registry m) full_path of
        None \<Rightarrow> False
      | Some existing_api \<Rightarrow> set methods \<inter> set (ai_methods existing_api) \<noteq> {})"

definition create_router ::
  "framework \<Rightarrow> api_mapper \<Rightarrow> string \<Rightarrow> string \<Rightarrow> py_error + api_mapper \<times> router" where
  "create_router fw m sid api_prefix =
     (let normalized_prefix = normalize_path api_prefix
      in if fw_accepts_prefix fw normalized_prefix then
           (let r = \<lparr> router_prefix = normalized_prefix, router_routes = [] \<rparr>
            in Inr (m\<lparr>routers := (routers m)(sid \<mapsto> r)\<rparr>, r))
         else Inl AssertionError)"

text \<open>
  The methods of a registration: \<open>kwargs.get("methods", ["GET"])\<close>, a single string
  made a list, and every element upper-cased.
\<close>

fun upper_all :: "(string \<Rightarrow> string) \<Rightarrow> pyval list \<Rightarrow> py_error + string list" where
  "upper_all upper [] = Inr []"
| "upper_all upper (PStr s # xs) =
     (case upper_all upper xs of Inl e \<Rightarrow> Inl e | Inr ys \<Rightarrow> Inr (upper s # ys))"
| "upper_all upper (x # xs) = Inl AttributeError"

definition methods_of_kwargs :: "framework \<Rightarrow> pydict \<Rightarrow> py_error + string list" where
  "methods_of_kwargs fw kwargs =
     (case (case map_of kwargs ''methods'' of None \<Rightarrow> PList [PStr ''GET''] | Some v \<Rightarrow> v) of
        PStr s \<Rightarrow> Inr [fw_upper fw s]
      | PList xs \<Rightarrow> upper_all (fw_upper fw) xs
      | PDict kvs \<Rightarrow> Inr (map (fw_upper fw \<circ> fst) kvs)
      | _ \<Rightarrow> Inl TypeError)"

definition kw_get :: "pydict \<Rightarrow> string \<Rightarrow> pyval \<Rightarrow> pyval" where
  "kw_get kwargs k dflt = (case map_of kwargs k of None \<Rightarrow> dflt | Some v \<Rightarrow> v)"

text \<open>
  \<open>add_api_route(service_id, path, endpoint, **kwargs)\<close>: the new state and the returned
  truth value. The exceptions that the body raises are derived from \<open>Exception\<close>; the
  handler catches them and gives \<open>False\<close>.
\<close>

definition add_api_route ::
  "framework \<Rightarrow> api_mapper \<Rightarrow> string \<Rightarrow> string \<Rightarrow> endpoint \<Rightarrow> pydict \<Rightarrow> api_mapper \<times> bool" where
  "add_api_route fw m sid path ep kwargs =
     (case (case routers m sid of
              None \<Rightarrow> create_router fw m sid []
            | Some r \<Rightarrow> Inr (m, r)) of
        Inl e \<Rightarrow> (m, False)
      | Inr (m1, r) \<Rightarrow>
          (let normalized_path = normalize_path path;
               full_path = (if router_prefix r \<noteq> [] then router_prefix r @ normalized_path
                            else normalized_path)
           in case methods_of_kwargs fw kwargs of
                Inl e \<Rightarrow> (m1, False)
              | Inr methods \<Rightarrow>
                  if check_path_conflict m1 full_path methods sid then (m1, False)
                  else if \<not> fw_accepts_route fw normalized_path ep kwargs then (m1, False)
                  else
                    (let r' = r\<lparr>router_routes := router_routes r @
                                 [\<lparr> route_path = normalized_path, route_endpoint = ep,
                                    route_kwargs = kwargs \<rparr>]\<rparr>;
                         m2 = m1\<lparr>routers := (routers m1)(sid \<mapsto> r')\<rparr>
                     in case ep of
                          None \<Rightarrow> (m2, False)
                        | Some name \<Rightarrow>
                            (m2\<lparr>api_registry := dict_set (api_registry m2) full_path
                                  \<lparr> ai_service_id = sid,
                                    ai_path = normalized_path,
                                    ai_full_path = full_path,
                                    ai_methods = methods,
                                    ai_endpoint = name,
                                    ai_description = kw_get kwargs ''description'' (PStr []),
                                    ai_tags = kw_get kwargs ''tags'' (PList []),
                                    ai_responses = kw_get kwargs ''responses'' (PDict []),
                                    ai_request_body = kw_get kwargs ''request_body'' PNone,
                                    ai_parameters = kw_get kwargs ''parameters'' (PList []),
                                    ai_summary = kw_get kwargs ''summary'' (PStr []) \<rparr>\<rparr>,
                             True))))"

text \<open>
  The full path that a registration of \<open>path\<close> for the service \<open>sid\<close> targets: the prefix
  of the service's router, when it has one, followed by the normalized path.
\<close>

definition route_full_path :: "api_mapper \<Rightarrow> string \<Rightarrow> string \<Rightarrow> string" where
  "route_full_path m sid path =
     (case routers m sid of
        None \<Rightarrow> normalize_path path
      | Some r \<Rightarrow> (if router_prefix r \<noteq> [] then router_prefix r @ normalize_path path
                   else normalize_path path))"

text \<open>
  \<open>_register_engine_api\<close> in three steps. First the route is read from the entry of the
  \<open>apis\<close> list: path, full path, method, description and tags.
\<close>

definition normalize_path_value :: "pyval \<Rightarrow> py_error + string" where
  "normalize_path_value path =
     (if \<not> truthy path then Inr []
      else (case path of PStr s \<Rightarrow> Inr (normalize_path s) | _ \<Rightarrow> Inl AttributeError))"

definition engine_api_route ::
  "framework \<Rightarrow> string \<Rightarrow> string \<Rightarrow> pyval
     \<Rightarrow> py_error + (string \<times> string \<times> string \<times> pyval \<times> pyval)" where
  "engine_api_route fw sid normalized_prefix api =
     (case api of
        PDict d \<Rightarrow>
          (case kw_get d ''method'' (PStr ''GET'') of
             PStr meth \<Rightarrow>
               (case normalize_path_value (kw_get d ''path'' (PStr [])) of
                  Inl e \<Rightarrow> Inl e
                | Inr normalized_path \<Rightarrow>
                    Inr (normalized_path, normalized_prefix @ normalized_path,
                         fw_upper fw meth,
                         kw_get d ''description'' (PStr []),
                         kw_get d ''tags'' (PList [PStr sid])))
           | _ \<Rightarrow> Inl AttributeError)
      | _ \<Rightarrow> Inl AttributeError)"

text \<open>
  \<open>_build_api_info\<close>: the default of the summary is the description up to its first
  full stop, which is computed whether or not the entry has a summary.
\<close>

definition build_api_info ::
  "string \<Rightarrow> string \<Rightarrow> string \<Rightarrow> string \<Rightarrow> pyval \<Rightarrow> pyval \<Rightarrow> pydict \<Rightarrow> py_error + api_info" where
  "build_api_info sid normalized_path full_path meth description tags api =
     (case (if truthy description
            then (case description of
                    PStr s \<Rightarrow> Inr (PStr (takeWhile (\<lambda>c. c \<noteq> CHR ''.'') s))
                  | _ \<Rightarrow> Inl AttributeError)
            else Inr (PStr [])) of
        Inl e \<Rightarrow> Inl e
      | Inr default_summary \<Rightarrow>
          Inr \<lparr> ai_service_id = sid,
                ai_path = normalized_path,
                ai_full_path = full_path,
                ai_methods = [meth],
                ai_endpoint = ''default_endpoint'',
                ai_description = description,
                ai_tags = tags,
                ai_responses = kw_get api ''responses'' (PDict []),
                ai_request_body = kw_get api ''request_body'' PNone,
                ai_parameters = kw_get api ''parameters'' (PList []),
                ai_summary = kw_get api ''summary'' default_summary \<rparr>)"

text \<open>
  \<open>_register_engine_api\<close>: the new state, and the exception if one is raised. A route
  in conflict with the registry is skipped.
\<close>

definition register_engine_api ::
  "framework \<Rightarrow> api_mapper \<Rightarrow> string \<Rightarrow> pyval \<Rightarrow> string \<Rightarrow> api_mapper \<times> py_error option" where
  "register_engine_api fw m sid api normalized_prefix =
     (case engine_api_route fw sid normalized_prefix api of
        Inl e \<Rightarrow> (m, Some e)
      | Inr (normalized_path, full_path, meth, description, tags) \<Rightarrow>
          if check_path_conflict m full_path [meth] sid then (m, None)
          else
            (case build_api_info sid normalized_path full_path meth description tags
                    (case api of PDict d \<Rightarrow> d | _ \<Rightarrow> []) of
               Inl e \<Rightarrow> (m, Some e)
             | Inr info \<Rightarrow>
                 (m\<lparr> api_registry := dict_set (api_registry m) full_path info,
                     registered_apis := registered_apis m @
                       [\<lparr> ra_service_id = sid, ra_path = full_path, ra_methods = [meth],
                          ra_endpoint = ai_endpoint info \<rparr>] \<rparr>,
                  None)))"

text \<open>The loop of \<open>_map_engine_service\<close> over the entries, ended by an exception.\<close>

fun register_engine_apis ::
  "framework \<Rightarrow> api_mapper \<Rightarrow> string \<Rightarrow> string \<Rightarrow> pyval list
     \<Rightarrow> api_mapper \<times> py_error option" where
  "register_engine_apis fw m sid normalized_prefix [] = (m, None)"
| "register_engine_apis fw m sid normalized_prefix (api # apis) =
     (case register_engine_api fw m sid api normalized_prefix of
        (m', Some e) \<Rightarrow> (m', Some e)
      | (m', None) \<Rightarrow> register_engine_apis fw m' sid normalized_prefix apis)"

text \<open>
  Iterating a value with \<open>for x in v\<close>: the elements of a list, the keys of a dict, the
  characters of a string, each of them a string again. How a string splits into
  characters is not observed: the body of the loop raises on the first of them.
\<close>

definition py_iter :: "pyval \<Rightarrow> py_error + pyval list" where
  "py_iter v =
     (case v of
        PList xs \<Rightarrow> Inr xs
      | PDict kvs \<Rightarrow> Inr (map (PStr \<circ> fst) kvs)
      | PStr s \<Rightarrow> Inr (map (\<lambda>c. PStr [c]) s)
      | _ \<Rightarrow> Inl TypeError)"

text \<open>
  \<open>_map_engine_service(service_id, info, result)\<close>: the new state, and the exception if
  one is raised; without exception the caller's \<open>success\<close> list gets the service id. The
  routes are read from the entry \<open>apis\<close> of the info. The prefix is
  \<open>APIStandard.ENGINE_API_PREFIX\<close>, \<open>/api/{engine_name}\<close>, filled with the service id.
  The exceptions that the method raises are derived from \<open>Exception\<close>.
\<close>

definition ENGINE_API_PREFIX :: "string \<Rightarrow> string" where
  "ENGINE_API_PREFIX engine_name = ''/api/'' @ engine_name"

definition map_engine_service ::
  "framework \<Rightarrow> api_mapper \<Rightarrow> string \<Rightarrow> pydict \<Rightarrow> api_mapper \<times> py_error option" where
  "map_engine_service fw m sid info =
     (let apis = kw_get info ''apis'' (PList []);
          normalized_prefix = normalize_path (ENGINE_API_PREFIX sid)
      in case create_router fw m sid normalized_prefix of
           Inl e \<Rightarrow> (m, Some e)
         | Inr (m1, r) \<Rightarrow>
             (case py_iter apis of
                Inl e \<Rightarrow> (m1, Some e)
              | Inr xs \<Rightarrow> register_engine_apis fw m1 sid normalized_prefix xs))"

definition list_apis :: "api_mapper \<Rightarrow> api_info list" where
  "list_apis m = map snd (api_registry m)"

definition clear_apis :: "api_mapper \<Rightarrow> api_mapper" where
  "clear_apis m = m\<lparr> routers := Map.empty, main_router := [], api_registry := [] \<rparr>"

text \<open>
  \<open>map_business_apis(business_info)\<close>: the new state, and the returned truth value or
  the exception that leaves the method. What lies on disk is given by \<open>business_env\<close>:
  the outcome of reading the service's \<open>service.json\<close>, and the run of the service's route
  module on the router it is handed, which is the routes that the module puts on the
  router and the exception that ends the run, if there is one (no route and no exception
  when there is no module). The handlers around the run and around the whole body are
  \<open>except Exception\<close>. The service id and the path are strings. The registry is not
  touched: the code skips a router that has routes, and for a router without routes its
  loop runs over those routes. The router is then included in the main router, an
  inclusion that the framework is taken to accept.
\<close>

record business_env =
  biz_service_json :: "string \<Rightarrow> py_error + pyval"
  biz_module_run :: "string \<Rightarrow> route list \<times> py_error option"

definition SERVICE_API_PREFIX :: "string \<Rightarrow> string" where
  "SERVICE_API_PREFIX sid = ''/api/'' @ sid"

definition map_business_apis ::
  "framework \<Rightarrow> business_env \<Rightarrow> api_mapper \<Rightarrow> pydict \<Rightarrow> api_mapper \<times> (py_error + bool)" where
  "map_business_apis fw env m business_info =
     (case (map_of business_info ''service_id'', map_of business_info ''business_path'') of
        (Some (PStr sid), Some (PStr business_path)) \<Rightarrow>
          if sid = [] \<or> business_path = [] then (m, Inr False)
          else
            (case biz_service_json env business_path of
               Inl e \<Rightarrow> if is_Exception e then (m, Inr False) else (m, Inl e)
             | Inr (PDict service_info) \<Rightarrow>
                 (case create_router fw m sid (normalize_path (SERVICE_API_PREFIX sid)) of
                    Inl e \<Rightarrow> (m, Inr False)
                  | Inr (m1, r) \<Rightarrow>
                      (let r' = r\<lparr>router_routes := fst (biz_module_run env business_path)\<rparr>;
                           m2 = m1\<lparr>routers := (routers m1)(sid \<mapsto> r')\<rparr>
                       in case snd (biz_module_run env business_path) of
                            None \<Rightarrow> (m2\<lparr>main_router := main_router m2 @ [r']\<rparr>, Inr True)
                          | Some e \<Rightarrow>
                              if is_Exception e
                              then (m2\<lparr>main_router := main_router m2 @ [r']\<rparr>, Inr True)
                              else (m2, Inl e)))
             | Inr v \<Rightarrow> (m, Inr False))
      | _ \<Rightarrow> (m, Inr False))"

text \<open>
  \<open>map_all_apis(services)\<close>: the loop over the services, with the lists of the ids that
  were mapped and of those that failed; the handler inside the loop is
  \<open>except Exception\<close>.
\<close>

record service_item =
  sv_service_id :: string
  sv_type :: string
  sv_info :: pydict

fun map_services ::
  "framework \<Rightarrow> business_env \<Rightarrow> api_mapper \<Rightarrow> service_item list \<Rightarrow> string list \<Rightarrow> string list
     \<Rightarrow> api_mapper \<times> (py_error + string list \<times> string list)" where
  "map_services fw env m [] success failed = (m, Inr (success, failed))"
| "map_services fw env m (s # ss) success failed =
     (if sv_type s = ''business'' then
        (case map_business_apis fw env m (sv_info s) of
           (m', Inr True) \<Rightarrow> map_services fw env m' ss (success @ [sv_service_id s]) failed
         | (m', Inr False) \<Rightarrow> map_services fw env m' ss success (failed @ [sv_service_id s])
         | (m', Inl e) \<Rightarrow> (m', Inl e))
      else if sv_type s = ''engine'' then
        (case map_engine_service fw m (sv_service_id s) (sv_info s) of
           (m', None) \<Rightarrow> map_services fw env m' ss (success @ [sv_service_id s]) failed
         | (m', Some e) \<Rightarrow> map_services fw env m' ss success (failed @ [sv_service_id s]))
      else map_services fw env m ss success failed)"

definition map_all_apis ::
  "framework \<Rightarrow> business_env \<Rightarrow> api_mapper \<Rightarrow> service_item list
     \<Rightarrow> api_mapper \<times> (py_error + string list \<times> string list)" where
  "map_all_apis fw env m service_list =
     map_services fw env (m\<lparr>registered_apis := []\<rparr>) service_list [] []"

section \<open>Gateway\<close>

text \<open>
  \<open>ServiceRegistry.list_services(service_type)\<close> (registry.py), which the gateway calls
  to get the services to map: an item for every entry of the services table of the given
  type, in the order of the table. An item holds the service id, the type and a copy of
  the info; for a business with a descriptor row the business path of the row is put
  into the copy. The entry \<open>database_info\<close> of an item, which the mapper does not read,
  is left out. Without a database manager the lookup of the row raises at the first
  entry.
\<close>

definition list_services :: "registry \<Rightarrow> string option \<Rightarrow> py_error + service_item list" where
  "list_services reg service_type =
     (let selected = filter (\<lambda>(sid, service_info).
                               service_type = None \<or> service_type = Some (se_type service_info))
                       (services reg)
      in if selected = [] then Inr []
         else
           (case db_manager reg of
              None \<Rightarrow> Inl AttributeError
            | Some db \<Rightarrow>
                Inr (map (\<lambda>(sid, service_info).
                            \<lparr> sv_service_id = sid,
                              sv_type = se_type service_info,
                              sv_info =
                                (case get_service_db db sid of
                                   None \<Rightarrow> se_info service_info
                                 | Some db_service \<Rightarrow>
                                     if se_type service_info = ''business''
                                     then dict_set (se_info service_info) ''business_path''
                                            (case db_business_path db_service of
                                               None \<Rightarrow> PNone
                                             | Some p \<Rightarrow> PStr p)
                                     else se_info service_info) \<rparr>)
                      selected)))"

text \<open>
  \<open>LinkGateway.map_apis()\<close> (gateway.py): the mapper is cleared, the services that the
  registry lists are mapped, and the main router is mounted on the application. The
  result is the new state of the mapper with the lists of the mapped and of the failed
  service ids, or the exception that leaves the method; the handler around the body is
  \<open>except Exception\<close> and returns two empty lists. The application itself is not part of
  the model: what is mounted on it is the main router of the new state.
\<close>

definition map_apis ::
  "framework \<Rightarrow> business_env \<Rightarrow> registry \<Rightarrow> api_mapper
     \<Rightarrow> api_mapper \<times> (py_error + string list \<times> string list)" where
  "map_apis fw env reg m =
     (let m0 = clear_apis m
      in case list_services reg None of
           Inl e \<Rightarrow> (m0, Inr ([], []))
         | Inr service_list \<Rightarrow> map_all_apis fw env m0 service_list)"

section \<open>Example inputs\<close>

text \<open>
  A registry with an empty database, the manifest of an engine that declares the service
  id \<open>fileengine\<close>, and engine classes for it. The first class has a \<open>start()\<close> that sets
  the status and returns \<open>True\<close> after one second; the \<open>start()\<close> of the second never
  returns. The two other classes start as the first does: one has the request logic
  \<open>impl\<close>, and \<open>get_api_routes()\<close> of the other returns the route \<open>GET /posts\<close>. The
  runtime folds the engine kind, an ASCII string, with \<open>ascii_lower\<close>.
\<close>

definition empty_registry :: registry where
  "empty_registry =
     \<lparr> engines = Map.empty, businesses = Map.empty, services = [],
       db_manager = Some Map.empty \<rparr>"

definition fileengine_manifest :: engine_manifest where
  "fileengine_manifest =
     \<lparr> mf_service_id = Some ''fileengine'', mf_service_name = Some ''FileEngine'',
       mf_version = Some ''1.0.0'', mf_engine_type = Some ''kernel'',
       mf_description = None, mf_database = None, mf_apis = None \<rparr>"

definition starting_class :: engine_class where
  "starting_class =
     \<lparr> cls_abstract_methods = [],
       cls_handle_request_impl = (\<lambda>action data. Inr (PDict [])),
       cls_start = (\<lambda>e. (Returns 1 True, e\<lparr>status := ''running''\<rparr>)),
       cls_get_api_routes = [] \<rparr>"

definition hanging_class :: engine_class where
  "hanging_class =
     \<lparr> cls_abstract_methods = [],
       cls_handle_request_impl = (\<lambda>action data. Inr (PDict [])),
       cls_start = (\<lambda>e. (Hangs, e)),
       cls_get_api_routes = [] \<rparr>"

definition serving_class :: "(string \<Rightarrow> pydict \<Rightarrow> py_error + pyval) \<Rightarrow> engine_class" where
  "serving_class impl =
     \<lparr> cls_abstract_methods = [],
       cls_handle_request_impl = impl,
       cls_start = (\<lambda>e. (Returns 1 True, e\<lparr>status := ''running''\<rparr>)),
       cls_get_api_routes = [] \<rparr>"

definition documented_class :: engine_class where
  "documented_class =
     \<lparr> cls_abstract_methods = [],
       cls_handle_request_impl = (\<lambda>action data. Inr (PDict [])),
       cls_start = (\<lambda>e. (Returns 1 True, e\<lparr>status := ''running''\<rparr>)),
       cls_get_api_routes = [PDict [(''path'', PStr ''/posts''), (''method'', PStr ''GET'')]] \<rparr>"

definition fileengine_env :: "engine_class \<Rightarrow> discovery_env" where
  "fileengine_env cls =
     \<lparr> env_engine_dir = ''/app/engines/FileEngine'',
       env_engine_path = ''/app/engines/FileEngine/file_engine.py'',
       env_config = Some (Loaded fileengine_manifest),
       env_module = FoundClass cls,
       env_uuid = ''3f2b8c1e-5d4a-4e6f-9a7b-0c1d2e3f4a5b'',
       env_lower = ascii_lower \<rparr>"

text \<open>
  The registry after \<open>update_service_health(sid, True)\<close>; it is the registry itself when
  the call raises. \<open>healthy_registry cls\<close> is the registry after the discovery of the
  engine of the class \<open>cls\<close> and the report that it is healthy.
\<close>

definition marked_healthy :: "registry \<Rightarrow> string \<Rightarrow> registry" where
  "marked_healthy reg sid =
     (case update_service_health reg sid True None of
        Inl e \<Rightarrow> reg
      | Inr (reg', updated) \<Rightarrow> reg')"

definition healthy_registry :: "engine_class \<Rightarrow> registry" where
  "healthy_registry cls =
     marked_healthy (fst (process_engine (fileengine_env cls) empty_registry ''FileEngine''))
       ''3f2b8c1e-5d4a-4e6f-9a7b-0c1d2e3f4a5b''"

text \<open>
  Two model libraries that take a dict for the field \<open>data\<close> as it is and refuse every
  other value. Under the first \<open>Response.error\<close> can be called, as under version 1 of
  pydantic; under the second it cannot, as under version 2.
\<close>

definition library_v1 :: model_library where
  "library_v1 =
     \<lparr> lib_dict_field = (\<lambda>v. case v of PDict d \<Rightarrow> Some d | _ \<Rightarrow> None),
       lib_error_callable = True \<rparr>"

definition library_v2 :: model_library where
  "library_v2 =
     \<lparr> lib_dict_field = (\<lambda>v. case v of PDict d \<Rightarrow> Some d | _ \<Rightarrow> None),
       lib_error_callable = False \<rparr>"

text \<open>
  An inner communicator with one engine, registered under \<open>fileengine\<close>, whose request
  logic is \<open>impl\<close> and whose direct-call flag is false.
\<close>

definition one_engine :: "(string \<Rightarrow> pydict \<Rightarrow> py_error + pyval) \<Rightarrow> inner_communicator" where
  "one_engine impl =
     \<lparr> engine_registry =
         [''fileengine'' \<mapsto> BaseEngine_init ''6f1c'' impl ''fileengine'' ''1.0.0'' ''kernel''],
       message_queue = [] \<rparr>"

text \<open>An example plugin: every hook of it ends in the same way.\<close>

definition constant_plugin :: "string \<Rightarrow> hook_outcome \<Rightarrow> plugin" where
  "constant_plugin name outcome =
     \<lparr> plugin_name = name,
       on_request_incoming = (\<lambda>req. outcome),
       on_service_calling_engine = (\<lambda>sid engine_id action data. outcome),
       on_engine_responding = (\<lambda>engine_id action resp. outcome),
       on_route_matching = (\<lambda>path method. outcome),
       on_response_outgoing = (\<lambda>resp. outcome) \<rparr>"

definition example_plugins :: plugin_manager where
  "example_plugins =
     \<lparr> plugins =
         [(''Broken'', constant_plugin ''Broken'' (Inl (Raised ''boom''))),
          (''Silent'', constant_plugin ''Silent'' (Inr PNone)),
          (''Blocker'', constant_plugin ''Blocker'' (Inr (PStr ''blocked''))),
          (''Late'', constant_plugin ''Late'' (Inr (PStr ''late'')))] \<rparr>"

text \<open>
  Example inputs of the mapper: a framework that takes every prefix and route, with the
  folding of ASCII method names; a disk without services; and the empty mapper.
\<close>

definition permissive_framework :: framework where
  "permissive_framework =
     \<lparr> fw_accepts_prefix = (\<lambda>p. True), fw_accepts_route = (\<lambda>p e k. True),
       fw_upper = ascii_upper \<rparr>"

definition no_businesses :: business_env where
  "no_businesses =
     \<lparr> biz_service_json = (\<lambda>p. Inl (Raised ''No such file or directory'')),
       biz_module_run = (\<lambda>p. ([], None)) \<rparr>"

definition empty_mapper :: api_mapper where
  "empty_mapper =
     \<lparr> routers = Map.empty, main_router = [], api_registry = [], registered_apis = [] \<rparr>"

section \<open>Manifest validation: a missing required field\<close>

text \<open>
  C6. The claim: a business manifest that lacks one of \<open>service_id\<close>, \<open>service_name\<close>,
  \<open>version\<close> is reported invalid, with a reason naming the missing field. On the manifest
  \<open>{"service_name": "A", "version": "1.0.0"}\<close> the helper does return the invalid result
  that names \<open>service_id\<close>, but the validator only tests that this dict is non-empty, and
  reports the manifest valid.
\<close>

theorem validate_service_json_missing_service_id:
  "check_required_fields (PDict [(''service_name'', PStr ''A''), (''version'', PStr ''1.0.0'')])
       REQUIRED_FIELDS
     = Inr [(''valid'', RBool False), (''reason'', RStr ''Missing required field: service_id'')] \<and>
   validate_service_json [(''service_name'', PStr ''A''), (''version'', PStr ''1.0.0'')]
     = Inr [(''valid'', RBool True), (''reason'', RStr ''Service JSON format is valid'')]"
  by (simp add: validate_service_json_def REQUIRED_FIELDS_def check_service_id_format_def
      validate_section_def dict_truthy_def dict_has_def)

section \<open>Path normalisation: a doubled trailing slash\<close>

text \<open>
  C10. The claim: normalising twice equals normalising once, and the result of a non-empty
  input ends with a slash only when it is the root path. The code removes exactly one
  trailing slash, so on the input \<open>a//\<close> the result \<open>/a/\<close> still ends with a slash, is not
  the root, and normalising it again gives \<open>/a\<close>.
\<close>

theorem normalize_path_double_slash:
  "normalize_path ''a//'' = ''/a/'' \<and>
   normalize_path (normalize_path ''a//'') = ''/a'' \<and>
   normalize_path (normalize_path ''a//'') \<noteq> normalize_path ''a//''"
  by (simp add: normalize_path_def startswith_def endswith_def)

section \<open>Caller authorisation\<close>

text \<open>
  C1. The claim: for an engine whose direct-call flag is false, every call of
  \<open>handle_request\<close> that does not come from one of the gateway's forwarding operations,
  reached through the gateway's own modules, fails with \<open>PermissionError\<close> and does not
  run the engine's request logic. \<open>_validate_caller\<close> accepts a call as soon as any frame
  of the stack, not only the frame of the caller, has the name of a forwarding operation
  and a file name in which \<open>LinkGateway\<close> or \<open>gateway.py\<close> occurs anywhere. So two calls
  to an engine whose flag is false, as \<open>__init__\<close> leaves it, run the request logic and
  return its result: the call from a function \<open>send_request\<close> of the file
  \<open>/tmp/evil/notLinkGateway/x.py\<close>, which is no module of the gateway; and the call from
  the request logic of another engine, PermDog, made while the proxy's \<open>forward_request\<close>
  is serving that engine further down the stack.
\<close>

theorem handle_request_foreign_caller:
  "allow_direct_call
       (BaseEngine_init ''6f1c'' (\<lambda>a d. Inr (PStr ''done'')) ''fileengine'' ''1.0.0'' ''kernel'')
     = False \<and>
   handle_request
     (BaseEngine_init ''6f1c'' (\<lambda>a d. Inr (PStr ''done'')) ''fileengine'' ''1.0.0'' ''kernel'')
     [\<lparr>frame_filename = ''/app/BaseEngine/base.py'', frame_function = ''_validate_caller''\<rparr>,
      \<lparr>frame_filename = ''/app/BaseEngine/base.py'', frame_function = ''handle_request''\<rparr>,
      \<lparr>frame_filename = ''/tmp/evil/notLinkGateway/x.py'', frame_function = ''send_request''\<rparr>,
      \<lparr>frame_filename = ''/tmp/evil/notLinkGateway/x.py'', frame_function = ''<module>''\<rparr>]
     ''get_post'' []
     = Inr (PStr ''done'') \<and>
   handle_request
     (BaseEngine_init ''6f1c'' (\<lambda>a d. Inr (PStr ''done'')) ''fileengine'' ''1.0.0'' ''kernel'')
     [\<lparr>frame_filename = ''/app/BaseEngine/base.py'', frame_function = ''_validate_caller''\<rparr>,
      \<lparr>frame_filename = ''/app/BaseEngine/base.py'', frame_function = ''handle_request''\<rparr>,
      \<lparr>frame_filename = ''/app/engines/PermDog/permdog.py'',
        frame_function = ''_handle_request_impl''\<rparr>,
      \<lparr>frame_filename = ''/app/BaseEngine/base.py'', frame_function = ''handle_request''\<rparr>,
      \<lparr>frame_filename = ''/app/LinkGateway/service_proxy.py'',
        frame_function = ''forward_request''\<rparr>]
     ''get_post'' []
     = Inr (PStr ''done'')"
  by (simp add: handle_request_def validate_caller_def BaseEngine_init_def
      forwarding_operations_def)

section \<open>Engine-to-engine calls\<close>

text \<open>
  C8. For every pair of service ids whose descriptors in the registry's database are both
  of kind engine, \<open>is_service_allowed\<close> returns false.
\<close>

theorem is_service_allowed_engine_engine:
  assumes "db_manager reg = Some db"
    and "db source = Some s" and "db target = Some t"
    and "db_service_type s = ENGINE" and "db_service_type t = ENGINE"
  shows "is_service_allowed reg source target = Inr False"
  using assms by (simp add: is_service_allowed_def get_service_db_def)

theorem is_service_allowed_engine_engine_witness:
  "is_service_allowed
     \<lparr> engines = Map.empty, businesses = Map.empty, services = [],
       db_manager = Some
         [''fileengine'' \<mapsto>
            \<lparr> db_service_id = ''fileengine'', db_service_name = ''FileEngine'',
              db_service_type = ENGINE, db_version = ''1.0.0'', db_status = VALID,
              db_reason = None, db_description = PStr [], db_business_path = None,
              db_engine_type = Some KERNEL, db_engine_path = None \<rparr>,
          ''permdog'' \<mapsto>
            \<lparr> db_service_id = ''permdog'', db_service_name = ''PermDog'',
              db_service_type = ENGINE, db_version = ''1.0.0'', db_status = VALID,
              db_reason = None, db_description = PStr [], db_business_path = None,
              db_engine_type = Some KERNEL, db_engine_path = None \<rparr>] \<rparr>
     ''fileengine'' ''permdog'' = Inr False"
proof -
  let ?fe = "\<lparr> db_service_id = ''fileengine'', db_service_name = ''FileEngine'',
              db_service_type = ENGINE, db_version = ''1.0.0'', db_status = VALID,
              db_reason = None, db_description = PStr [], db_business_path = None,
              db_engine_type = Some KERNEL, db_engine_path = None \<rparr>"
  let ?pd = "\<lparr> db_service_id = ''permdog'', db_service_name = ''PermDog'',
              db_service_type = ENGINE, db_version = ''1.0.0'', db_status = VALID,
              db_reason = None, db_description = PStr [], db_business_path = None,
              db_engine_type = Some KERNEL, db_engine_path = None \<rparr>"
  let ?db = "[''fileengine'' \<mapsto> ?fe, ''permdog'' \<mapsto> ?pd]"
  let ?reg = "\<lparr> engines = Map.empty, businesses = Map.empty, services = [],
       db_manager = Some ?db \<rparr>"
  show ?thesis
    using is_service_allowed_engine_engine
      [of ?reg ?db "''fileengine''" ?fe "''permdog''" ?pd]
    by simp
qed

section \<open>Engine discovery: identity and start timeout\<close>

lemmas discovery_defs =
  process_engine_def process_engine_try_def load_and_validate_engine_config_def
  load_and_create_engine_def start_and_register_engine_def register_engine_to_db_def
  register_engine_to_memory_def create_engine_instance_def start_engine_safely_def
  start_engine_with_timeout_def build_engine_error_result_def db_update_status_def
  validate_engine_json_def check_engine_type_def validate_section_def engine_json_def
  engine_validate_database_config_def engine_validate_apis_config_def
  opt_entry_def ENGINE_REQUIRED_FIELDS_def ENGINE_TYPES_def dict_truthy_def dict_has_def
  dict_get_def dict_set_def
  get_metadata_def BaseEngine_init_def meta_str_def EngineType_of_def ascii_lower_def
  ascii_lower_char_def
  service_exists_def add_service_def update_service_def get_engine_def
  res_valid_def Let_def
  empty_registry_def fileengine_manifest_def starting_class_def hanging_class_def
  serving_class_def documented_class_def fileengine_env_def

text \<open>
  C4. The claim: an engine whose manifest validates and whose class is found is created
  with the identity of the manifest and, once started, is found by \<open>get_engine\<close> under the
  declared service id. The registry passes the declared id to the constructor, where it
  arrives as the service name; \<open>BaseEngine.__init__\<close> sets the service id to a fresh UUID,
  and the engine is registered under the id of its metadata. For the manifest declaring
  \<open>fileengine\<close>, with a class whose \<open>start()\<close> succeeds, \<open>get_engine\<close> finds nothing
  under \<open>fileengine\<close>: the instance is stored under the generated identifier, which is
  also the id of the discovery entry.
\<close>

theorem process_engine_registers_under_uuid:
  "get_engine (fst (process_engine (fileengine_env starting_class) empty_registry ''FileEngine''))
       ''fileengine'' = None \<and>
   map_option service_id
       (get_engine (fst (process_engine (fileengine_env starting_class) empty_registry ''FileEngine''))
          ''3f2b8c1e-5d4a-4e6f-9a7b-0c1d2e3f4a5b'')
     = Some ''3f2b8c1e-5d4a-4e6f-9a7b-0c1d2e3f4a5b'' \<and>
   snd (process_engine (fileengine_env starting_class) empty_registry ''FileEngine'')
     = Inr \<lparr> r_service_id = ''3f2b8c1e-5d4a-4e6f-9a7b-0c1d2e3f4a5b'',
             r_service_name = ''FileEngine'', r_version = Some ''1.0.0'',
             r_engine_type = Some ''kernel'', r_status = ''valid'', r_reason = None \<rparr>"
  by (simp add: discovery_defs)

text \<open>
  C5. The claim: an engine whose \<open>start()\<close> does not finish within the timeout of 30
  seconds is recorded as invalid, with a reason describing the timeout, in the discovery
  result and in the persisted descriptor. For a class whose \<open>start()\<close> never returns,
  \<open>_start_engine_with_timeout\<close> gives \<open>False\<close>, and the caller only logs it: the
  engine, still \<open>stopped\<close>, is registered in memory, the discovery entry has the status
  \<open>valid\<close> and no reason, and the reason of the persisted descriptor names the engine's
  status, not the timeout.
\<close>

theorem process_engine_start_timeout:
  "start_engine_with_timeout hanging_class
       (BaseEngine_init ''3f2b8c1e-5d4a-4e6f-9a7b-0c1d2e3f4a5b'' (\<lambda>action data. Inr (PDict []))
          ''fileengine'' ''1.0.0'' ''kernel'') 30
     = (False, BaseEngine_init ''3f2b8c1e-5d4a-4e6f-9a7b-0c1d2e3f4a5b''
          (\<lambda>action data. Inr (PDict [])) ''fileengine'' ''1.0.0'' ''kernel'') \<and>
   snd (process_engine (fileengine_env hanging_class) empty_registry ''FileEngine'')
     = Inr \<lparr> r_service_id = ''3f2b8c1e-5d4a-4e6f-9a7b-0c1d2e3f4a5b'',
             r_service_name = ''FileEngine'', r_version = Some ''1.0.0'',
             r_engine_type = Some ''kernel'', r_status = ''valid'', r_reason = None \<rparr> \<and>
   map_option status
       (get_engine (fst (process_engine (fileengine_env hanging_class) empty_registry ''FileEngine''))
          ''3f2b8c1e-5d4a-4e6f-9a7b-0c1d2e3f4a5b'')
     = Some ''stopped'' \<and>
   map_option (\<lambda>db. map_option (\<lambda>row. (db_status row, db_reason row))
                      (db ''3f2b8c1e-5d4a-4e6f-9a7b-0c1d2e3f4a5b''))
       (db_manager (fst (process_engine (fileengine_env hanging_class) empty_registry ''FileEngine'')))
     = Some (Some (INVALID, Some (Text ''Engine startup failed, current status: stopped'')))"
  by (simp add: discovery_defs)

section \<open>Internal dispatch: what a call returns\<close>

lemma map_of_dict_set:
  "map_of (dict_set d k v) k' = (if k' = k then Some v else map_of d k')"
  by (simp add: dict_set_def update_conv')

text \<open>
  A call that comes from a forwarding operation of a file under \<open>LinkGateway\<close> reaches the
  engine's request logic, whatever the installation directory, the callers further down
  the stack and the direct-call flag are. The calls of \<open>send_request\<close> and of the proxy's
  \<open>forward_request\<close> are of this kind.
\<close>

lemma str_contains_append: "str_contains sub ys \<Longrightarrow> str_contains sub (xs @ ys)"
  by (induction xs) simp_all

lemma scan_stack_gateway:
  assumes "meth \<in> set forwarding_operations"
    and "str_contains ''LinkGateway'' fname"
  shows "scan_stack (stack_from root fname meth callers)"
  using assms str_contains_append [of "''LinkGateway''" fname root]
  by (simp add: stack_from_def forwarding_operations_def)

lemma handle_request_from_gateway:
  assumes "meth \<in> set forwarding_operations"
    and "str_contains ''LinkGateway'' fname"
  shows "handle_request e (stack_from root fname meth callers) action data
           = handle_request_impl e action data"
  using scan_stack_gateway [OF assms]
  by (simp add: handle_request_def validate_caller_def)

lemma handle_request_send_request:
  "handle_request e (stack_from root ''/LinkGateway/inner_comm.py'' ''send_request'' callers)
     action data = handle_request_impl e action data"
  by (rule handle_request_from_gateway) (simp_all add: forwarding_operations_def)

lemma handle_request_forward_request:
  "handle_request e
     (stack_from root ''/LinkGateway/service_proxy.py'' ''forward_request'' callers)
     action data = handle_request_impl e action data"
  by (rule handle_request_from_gateway) (simp_all add: forwarding_operations_def)

lemma send_request_unknown:
  "engine_registry ic target = None
   \<Longrightarrow> send_request ic lib rid root callers target action data = Inr None"
  by (simp add: send_request_def)

lemma send_request_success:
  assumes "engine_registry ic target = Some e"
    and "handle_request_impl e action data = Inr v"
    and "lib_dict_field lib (if truthy v then v else PDict []) = Some d"
  shows "send_request ic lib rid root callers target action data
           = Inr (Some \<lparr> resp_request_id = rid, resp_status = ''success'', resp_code = 200,
                         resp_data = d \<rparr>)"
  using assms
  by (simp add: send_request_def handle_request_send_request Response_success_def)

lemma send_request_failure:
  assumes "engine_registry ic target = Some e"
    and "lib_error_callable lib"
    and "(\<exists>err. handle_request_impl e action data = Inl err \<and> is_Exception err)
         \<or> (\<exists>v. handle_request_impl e action data = Inr v
                \<and> lib_dict_field lib (if truthy v then v else PDict []) = None)"
  shows "send_request ic lib rid root callers target action data
           = Inr (Some \<lparr> resp_request_id = rid, resp_status = ''error'', resp_code = 500,
                         resp_data = [] \<rparr>)"
  using assms
  by (auto simp: send_request_def handle_request_send_request Response_success_def
        Response_error_def)

lemma send_request_escape:
  assumes "engine_registry ic target = Some e"
    and "handle_request_impl e action data = Inl err"
    and "\<not> is_Exception err"
  shows "send_request ic lib rid root callers target action data = Inl err"
  using assms
  by (simp add: send_request_def handle_request_send_request)

lemma forward_request_refused:
  assumes "engine_id = [] \<or> act = [] \<or> get_engine reg engine_id = None
           \<or> \<not> check_service_health reg engine_id"
  shows "\<exists>result. forward_request reg root callers engine_id act payload = Inr result
           \<and> map_of result ''status'' = Some (RStr ''error'')
           \<and> map_of result ''error'' \<noteq> None
           \<and> map_of result ''request_id'' = None"
  using assms
  by (auto simp: forward_request_def Let_def split: option.splits)

lemma forward_request_raised:
  assumes "engine_id \<noteq> []" and "act \<noteq> []"
    and "get_engine reg engine_id = Some e"
    and "check_service_health reg engine_id"
    and "handle_request_impl e act (case payload of PDict d \<Rightarrow> d | v \<Rightarrow> [(''data'', v)])
           = Inl err"
  shows "forward_request reg root callers engine_id act payload
           = (if is_Exception err
              then Inr [(''status'', RStr ''error''), (''error'', RErr err),
                        (''action'', RStr act), (''engine_id'', RStr engine_id)]
              else Inl err)"
  using assms
  by (simp add: forward_request_def Let_def handle_request_forward_request)

lemma set_default_status_lookup:
  "map_of (set_default_status result) k
     = (if k = ''status'' \<and> map_of result ''status'' = None then Some (RStr ''success'')
        else map_of result k)"
  by (cases "map_of result ''status''")
     (auto simp: set_default_status_def map_add_def split: option.splits)

lemma forward_request_returned:
  assumes "engine_id \<noteq> []" and "act \<noteq> []"
    and "get_engine reg engine_id = Some e"
    and "check_service_health reg engine_id"
    and "handle_request_impl e act (case payload of PDict d \<Rightarrow> d | v \<Rightarrow> [(''data'', v)])
           = Inr v"
  shows "\<exists>result. forward_request reg root callers engine_id act payload = Inr result
           \<and> map_of result ''status'' = Some (handler_status v)
           \<and> map_of result ''engine_id'' = Some (RStr engine_id)
           \<and> map_of result ''action'' = Some (RStr act)
           \<and> map_of result ''request_id'' = handler_request_id v"
  using assms
  by (cases v)
     (auto simp: forward_request_def Let_def handle_request_forward_request map_of_dict_set
        set_default_status_lookup handler_status_def handler_request_id_def map_of_map
        split: option.splits)


lemmas health_defs =
  healthy_registry_def marked_healthy_def update_service_health_def update_service_status_def
  check_service_health_def check_memory_service_health_def

text \<open>
  C2, as the code has it. \<open>send_request\<close> returns \<open>None\<close>, and no envelope, when the
  target engine is not registered. For a registered target it returns one envelope with
  the request id: with the status \<open>success\<close>, the code 200 and the handler's data when
  the handler returns data that the envelope can hold; with the status \<open>error\<close>, the code
  500 and no data when the handler raises an exception derived from \<open>Exception\<close> or
  returns data that the envelope cannot hold, provided that \<open>Response.error\<close> can be
  called. An exception of the handler that is not derived from \<open>Exception\<close> leaves
  \<open>send_request\<close>.

  \<open>forward_request\<close> of the proxy returns one result dict, which has no request id of
  its own. For an empty engine id or action, an unknown engine or an unhealthy one, the
  dict has the status \<open>error\<close> and an error entry. When the handler raises an exception
  derived from \<open>Exception\<close>, the dict has the status \<open>error\<close>, the exception's message,
  the action and the engine id; any other exception leaves the method. When the handler
  returns, the dict has the engine id, the action, the status of the handler's result
  when that has one and \<open>success\<close> otherwise, and a request id only when the handler's
  result has one.
\<close>

theorem dispatch_outcome:
  "(engine_registry ic target = None \<longrightarrow>
      send_request ic lib rid root callers target action data = Inr None)
   \<and> (\<forall>e v d. engine_registry ic target = Some e
          \<and> handle_request_impl e action data = Inr v
          \<and> lib_dict_field lib (if truthy v then v else PDict []) = Some d \<longrightarrow>
        send_request ic lib rid root callers target action data
          = Inr (Some \<lparr> resp_request_id = rid, resp_status = ''success'', resp_code = 200,
                        resp_data = d \<rparr>))
   \<and> (\<forall>e. engine_registry ic target = Some e \<and> lib_error_callable lib
          \<and> ((\<exists>err. handle_request_impl e action data = Inl err \<and> is_Exception err)
             \<or> (\<exists>v. handle_request_impl e action data = Inr v
                    \<and> lib_dict_field lib (if truthy v then v else PDict []) = None)) \<longrightarrow>
        send_request ic lib rid root callers target action data
          = Inr (Some \<lparr> resp_request_id = rid, resp_status = ''error'', resp_code = 500,
                        resp_data = [] \<rparr>))
   \<and> (\<forall>e err. engine_registry ic target = Some e
          \<and> handle_request_impl e action data = Inl err \<and> \<not> is_Exception err \<longrightarrow>
        send_request ic lib rid root callers target action data = Inl err)
   \<and> (engine_id = [] \<or> act = [] \<or> get_engine reg engine_id = None
        \<or> \<not> check_service_health reg engine_id \<longrightarrow>
        (\<exists>result. forward_request reg root callers engine_id act payload = Inr result
           \<and> map_of result ''status'' = Some (RStr ''error'')
           \<and> map_of result ''error'' \<noteq> None
           \<and> map_of result ''request_id'' = None))
   \<and> (\<forall>e err. engine_id \<noteq> [] \<and> act \<noteq> [] \<and> get_engine reg engine_id = Some e
          \<and> check_service_health reg engine_id
          \<and> handle_request_impl e act (case payload of PDict d \<Rightarrow> d | v \<Rightarrow> [(''data'', v)])
              = Inl err \<longrightarrow>
        forward_request reg root callers engine_id act payload
          = (if is_Exception err
             then Inr [(''status'', RStr ''error''), (''error'', RErr err),
                       (''action'', RStr act), (''engine_id'', RStr engine_id)]
             else Inl err))
   \<and> (\<forall>e v. engine_id \<noteq> [] \<and> act \<noteq> [] \<and> get_engine reg engine_id = Some e
          \<and> check_service_health reg engine_id
          \<and> handle_request_impl e act (case payload of PDict d \<Rightarrow> d | v \<Rightarrow> [(''data'', v)])
              = Inr v \<longrightarrow>
        (\<exists>result. forward_request reg root callers engine_id act payload = Inr result
           \<and> map_of result ''status'' = Some (handler_status v)
           \<and> map_of result ''engine_id'' = Some (RStr engine_id)
           \<and> map_of result ''action'' = Some (RStr act)
           \<and> map_of result ''request_id'' = handler_request_id v))"
proof (intro conjI allI impI)
  assume "engine_registry ic target = None"
  then show "send_request ic lib rid root callers target action data = Inr None"
    by (rule send_request_unknown)
next
  fix e v d
  assume "engine_registry ic target = Some e
          \<and> handle_request_impl e action data = Inr v
          \<and> lib_dict_field lib (if truthy v then v else PDict []) = Some d"
  then show "send_request ic lib rid root callers target action data
          = Inr (Some \<lparr> resp_request_id = rid, resp_status = ''success'', resp_code = 200,
                        resp_data = d \<rparr>)"
    by (elim conjE) (rule send_request_success, assumption+)
next
  fix e
  assume "engine_registry ic target = Some e \<and> lib_error_callable lib
          \<and> ((\<exists>err. handle_request_impl e action data = Inl err \<and> is_Exception err)
             \<or> (\<exists>v. handle_request_impl e action data = Inr v
                    \<and> lib_dict_field lib (if truthy v then v else PDict []) = None))"
  then show "send_request ic lib rid root callers target action data
          = Inr (Some \<lparr> resp_request_id = rid, resp_status = ''error'', resp_code = 500,
                        resp_data = [] \<rparr>)"
    by (elim conjE) (rule send_request_failure, assumption+)
next
  fix e err
  assume "engine_registry ic target = Some e
          \<and> handle_request_impl e action data = Inl err \<and> \<not> is_Exception err"
  then show "send_request ic lib rid root callers target action data = Inl err"
    by (elim conjE) (rule send_request_escape, assumption+)
next
  assume "engine_id = [] \<or> act = [] \<or> get_engine reg engine_id = None
        \<or> \<not> check_service_health reg engine_id"
  then show "\<exists>result. forward_request reg root callers engine_id act payload = Inr result
           \<and> map_of result ''status'' = Some (RStr ''error'')
           \<and> map_of result ''error'' \<noteq> None
           \<and> map_of result ''request_id'' = None"
    by (rule forward_request_refused)
next
  fix e err
  assume "engine_id \<noteq> [] \<and> act \<noteq> [] \<and> get_engine reg engine_id = Some e
          \<and> check_service_health reg engine_id
          \<and> handle_request_impl e act (case payload of PDict d \<Rightarrow> d | v \<Rightarrow> [(''data'', v)])
              = Inl err"
  then show "forward_request reg root callers engine_id act payload
          = (if is_Exception err
             then Inr [(''status'', RStr ''error''), (''error'', RErr err),
                       (''action'', RStr act), (''engine_id'', RStr engine_id)]
             else Inl err)"
    by (elim conjE) (rule forward_request_raised, assumption+)
next
  fix e v
  assume "engine_id \<noteq> [] \<and> act \<noteq> [] \<and> get_engine reg engine_id = Some e
          \<and> check_service_health reg engine_id
          \<and> handle_request_impl e act (case payload of PDict d \<Rightarrow> d | v \<Rightarrow> [(''data'', v)])
              = Inr v"
  then show "\<exists>result. forward_request reg root callers engine_id act payload = Inr result
           \<and> map_of result ''status'' = Some (handler_status v)
           \<and> map_of result ''engine_id'' = Some (RStr engine_id)
           \<and> map_of result ''action'' = Some (RStr act)
           \<and> map_of result ''request_id'' = handler_request_id v"
    by (elim conjE) (rule forward_request_returned, assumption+)
qed


text \<open>
  The seven cases at concrete inputs: an engine registered with the communicator under
  \<open>fileengine\<close>, and an engine that discovery registered and that was reported healthy.
\<close>

theorem dispatch_outcome_witness:
  "send_request (one_engine (\<lambda>a d. Inr (PDict [(''n'', PInt 1)]))) library_v1 ''r-1'' ''/app'' []
       ''permdog'' ''ping'' []
     = Inr None
   \<and> send_request (one_engine (\<lambda>a d. Inr (PDict [(''n'', PInt 1)]))) library_v1 ''r-1'' ''/app'' []
       ''fileengine'' ''ping'' []
     = Inr (Some \<lparr> resp_request_id = ''r-1'', resp_status = ''success'', resp_code = 200,
                   resp_data = [(''n'', PInt 1)] \<rparr>)
   \<and> send_request (one_engine (\<lambda>a d. Inl (Raised ''disk full''))) library_v1 ''r-1'' ''/app'' []
       ''fileengine'' ''ping'' []
     = Inr (Some \<lparr> resp_request_id = ''r-1'', resp_status = ''error'', resp_code = 500,
                   resp_data = [] \<rparr>)
   \<and> send_request (one_engine (\<lambda>a d. Inl SystemExit)) library_v1 ''r-1'' ''/app'' []
       ''fileengine'' ''ping'' []
     = Inl SystemExit
   \<and> (\<exists>result. forward_request empty_registry ''/app'' [] ''fileengine'' ''ping'' (PDict [])
                  = Inr result
         \<and> map_of result ''status'' = Some (RStr ''error'')
         \<and> map_of result ''error'' \<noteq> None
         \<and> map_of result ''request_id'' = None)
   \<and> forward_request (healthy_registry (serving_class (\<lambda>a d. Inl (Raised ''disk full''))))
       ''/app'' [] ''3f2b8c1e-5d4a-4e6f-9a7b-0c1d2e3f4a5b'' ''ping'' (PDict [])
     = Inr [(''status'', RStr ''error''), (''error'', RErr (Raised ''disk full'')),
            (''action'', RStr ''ping''),
            (''engine_id'', RStr ''3f2b8c1e-5d4a-4e6f-9a7b-0c1d2e3f4a5b'')]
   \<and> (\<exists>result. forward_request
                    (healthy_registry
                       (serving_class (\<lambda>a d. Inr (PDict [(''status'', PStr ''pending'')]))))
                    ''/app'' [] ''3f2b8c1e-5d4a-4e6f-9a7b-0c1d2e3f4a5b'' ''ping'' (PDict [])
                  = Inr result
         \<and> map_of result ''status'' = Some (RVal (PStr ''pending''))
         \<and> map_of result ''engine_id'' = Some (RStr ''3f2b8c1e-5d4a-4e6f-9a7b-0c1d2e3f4a5b'')
         \<and> map_of result ''action'' = Some (RStr ''ping'')
         \<and> map_of result ''request_id'' = None)"
proof -
  let ?ok = "\<lambda>a d. Inr (PDict [(''n'', PInt 1)]) :: py_error + pyval"
  let ?fail = "\<lambda>a d. Inl (Raised ''disk full'') :: py_error + pyval"
  let ?exit = "\<lambda>a d. Inl SystemExit :: py_error + pyval"
  let ?pending = "\<lambda>a d. Inr (PDict [(''status'', PStr ''pending'')]) :: py_error + pyval"
  let ?uuid = "''3f2b8c1e-5d4a-4e6f-9a7b-0c1d2e3f4a5b''"
  let ?e = "\<lambda>impl. BaseEngine_init ''6f1c'' impl ''fileengine'' ''1.0.0'' ''kernel''"
  let ?d = "\<lambda>impl. (BaseEngine_init ?uuid impl ''fileengine'' ''1.0.0'' ''kernel'')
                    \<lparr>service_name := ''FileEngine'', status := ''running''\<rparr>"
  have w1: "send_request (one_engine ?ok) library_v1 ''r-1'' ''/app'' [] ''permdog'' ''ping'' []
              = Inr None"
    by (rule dispatch_outcome [THEN conjunct1, rule_format]) (simp add: one_engine_def)
  have w2: "send_request (one_engine ?ok) library_v1 ''r-1'' ''/app'' [] ''fileengine'' ''ping'' []
              = Inr (Some \<lparr> resp_request_id = ''r-1'', resp_status = ''success'',
                            resp_code = 200, resp_data = [(''n'', PInt 1)] \<rparr>)"
    by (rule dispatch_outcome [THEN conjunct2, THEN conjunct1, rule_format,
               where e = "?e ?ok" and v = "PDict [(''n'', PInt 1)]"])
       (simp add: one_engine_def library_v1_def BaseEngine_init_def)
  have w3: "send_request (one_engine ?fail) library_v1 ''r-1'' ''/app'' [] ''fileengine'' ''ping'' []
              = Inr (Some \<lparr> resp_request_id = ''r-1'', resp_status = ''error'',
                            resp_code = 500, resp_data = [] \<rparr>)"
    by (rule dispatch_outcome [THEN conjunct2, THEN conjunct2, THEN conjunct1, rule_format,
               where e = "?e ?fail"])
       (simp add: one_engine_def library_v1_def BaseEngine_init_def)
  have w4: "send_request (one_engine ?exit) library_v1 ''r-1'' ''/app'' [] ''fileengine'' ''ping'' []
              = Inl SystemExit"
    by (rule dispatch_outcome [THEN conjunct2, THEN conjunct2, THEN conjunct2, THEN conjunct1,
               rule_format, where e = "?e ?exit"])
       (simp add: one_engine_def BaseEngine_init_def)
  have w5: "\<exists>result. forward_request empty_registry ''/app'' [] ''fileengine'' ''ping'' (PDict [])
                  = Inr result
         \<and> map_of result ''status'' = Some (RStr ''error'')
         \<and> map_of result ''error'' \<noteq> None
         \<and> map_of result ''request_id'' = None"
    by (rule dispatch_outcome [THEN conjunct2, THEN conjunct2, THEN conjunct2, THEN conjunct2,
               THEN conjunct1, rule_format])
       (simp add: empty_registry_def get_engine_def)
  have w6: "forward_request (healthy_registry (serving_class ?fail)) ''/app'' [] ?uuid ''ping''
              (PDict [])
            = (if is_Exception (Raised ''disk full'')
               then Inr [(''status'', RStr ''error''), (''error'', RErr (Raised ''disk full'')),
                         (''action'', RStr ''ping''), (''engine_id'', RStr ?uuid)]
               else Inl (Raised ''disk full''))"
    by (rule dispatch_outcome [THEN conjunct2, THEN conjunct2, THEN conjunct2, THEN conjunct2,
               THEN conjunct2, THEN conjunct1, rule_format, where e = "?d ?fail"])
       (simp add: health_defs discovery_defs)
  have w7: "\<exists>result. forward_request (healthy_registry (serving_class ?pending)) ''/app'' []
                    ?uuid ''ping'' (PDict [])
                  = Inr result
         \<and> map_of result ''status'' = Some (handler_status (PDict [(''status'', PStr ''pending'')]))
         \<and> map_of result ''engine_id'' = Some (RStr ?uuid)
         \<and> map_of result ''action'' = Some (RStr ''ping'')
         \<and> map_of result ''request_id''
             = handler_request_id (PDict [(''status'', PStr ''pending'')])"
    by (rule dispatch_outcome [THEN conjunct2, THEN conjunct2, THEN conjunct2, THEN conjunct2,
               THEN conjunct2, THEN conjunct2, rule_format, where e = "?d ?pending"])
       (simp add: health_defs discovery_defs)
  from w1 w2 w3 w4 w5 w6 w7 show ?thesis
    by (simp add: handler_status_def handler_request_id_def)
qed

text \<open>
  C2, as the claim states it, fails: \<open>send_request\<close> returns \<open>None\<close>, no envelope at
  all, for a target that is not registered; the result of \<open>forward_request\<close> for an
  unknown engine carries no request id; and for a healthy engine whose request logic
  answers \<open>{"status": "pending"}\<close> the result of \<open>forward_request\<close> has the status
  \<open>pending\<close>, which is neither \<open>success\<close> nor \<open>error\<close>, and no request id.
\<close>

theorem dispatch_without_envelope:
  "send_request \<lparr> engine_registry = Map.empty, message_queue = [] \<rparr> library_v1
       ''r-1'' ''/app'' [] ''fileengine'' ''ping'' []
     = Inr None
   \<and> forward_request empty_registry ''/app'' [] ''fileengine'' ''ping'' (PDict [])
     = Inr [(''status'', RStr ''error''), (''error'', RStr ''Engine fileengine not found''),
            (''engine_id'', RStr ''fileengine'')]
   \<and> forward_request
       (healthy_registry (serving_class (\<lambda>a d. Inr (PDict [(''status'', PStr ''pending'')]))))
       ''/app'' [] ''3f2b8c1e-5d4a-4e6f-9a7b-0c1d2e3f4a5b'' ''ping'' (PDict [])
     = Inr [(''status'', RVal (PStr ''pending'')),
            (''engine_id'', RStr ''3f2b8c1e-5d4a-4e6f-9a7b-0c1d2e3f4a5b''),
            (''action'', RStr ''ping'')]"
  by (simp add: send_request_def forward_request_def handle_request_forward_request
      set_default_status_def health_defs discovery_defs)

text \<open>
  When \<open>Response.error\<close> cannot be called, as under version 2 of the model library, the
  handler of \<open>send_request\<close> does not build the error envelope: the lookup of the
  attribute raises \<open>AttributeError\<close> inside the handler, and the exception leaves the
  method.
\<close>

lemma send_request_error_unbuilt:
  "send_request (one_engine (\<lambda>a d. Inl (Raised ''disk full''))) library_v2 ''r-1'' ''/app'' []
     ''fileengine'' ''ping'' []
   = Inl AttributeError"
  by (simp add: send_request_def handle_request_send_request Response_error_def
      one_engine_def library_v2_def BaseEngine_init_def)

section \<open>Plugin hooks\<close>

lemma notify_until_response_firing:
  "notify_until_response hook ps = firing ends_short_circuit hook ps"
  by (induction ps)
     (auto simp: firing_def called_def fired_def caught_def ends_short_circuit_def answers_def
        escapes_def split: sum.splits prod.splits)

lemma notify_each_firing:
  "notify_each hook ps = firing ends_observational hook ps"
  by (induction ps)
     (auto simp: firing_def called_def fired_def caught_def ends_observational_def
        escapes_def split: sum.splits prod.splits)

text \<open>
  The two loops in terms of the plugins' outcomes. The observational loop calls every
  plugin when no hook escapes. The short-circuiting loop stops at the first plugin that
  answers, when no hook before it escapes, and returns its answer; it calls every plugin
  and returns \<open>None\<close> when no hook answers or escapes. In each case the log holds the
  exceptions of the plugins that were called.
\<close>

lemma notify_each_calls_all:
  assumes "\<forall>p \<in> set ps. \<not> escapes (hook p)"
  shows "notify_each hook ps
           = (Inr PNone, map (\<lambda>p. (plugin_name p, hook p)) ps, caught hook ps)"
  using assms
  by (induction ps) (auto simp: caught_def escapes_def split: sum.splits prod.splits)

lemma notify_until_response_first_answer:
  assumes "\<forall>q \<in> set before. \<not> answers (hook q) \<and> \<not> escapes (hook q)"
    and "hook p = Inr r" and "r \<noteq> PNone"
  shows "notify_until_response hook (before @ p # after)
           = (Inr r, map (\<lambda>q. (plugin_name q, hook q)) (before @ [p]), caught hook before)"
  using assms
  by (induction before)
     (auto simp: caught_def escapes_def answers_def split: sum.splits prod.splits)

lemma notify_until_response_no_answer:
  assumes "\<forall>p \<in> set ps. \<not> answers (hook p) \<and> \<not> escapes (hook p)"
  shows "notify_until_response hook ps
           = (Inr PNone, map (\<lambda>p. (plugin_name p, hook p)) ps, caught hook ps)"
  using assms
  by (induction ps)
     (auto simp: caught_def escapes_def answers_def split: sum.splits prod.splits)

text \<open>
  C9, as the code has it. Every firing of a hook calls the loaded plugins in the order
  of registration, each at most once, and records nothing but these calls. For
  request-incoming, route-matching and response-outgoing the plugins are called up to
  and including the first whose hook returns a value other than \<open>None\<close>, be it empty or
  not, and that value is the result; when no hook returns such a value, all plugins are
  called and the result is \<open>None\<close>. For service-calling-engine and engine-responding
  every plugin is called, whatever the hooks return, and the result is \<open>None\<close>. An
  exception derived from \<open>Exception\<close> that a hook raises is caught and logged with the
  name of the plugin, and the plugins after it are called all the same. An exception
  that is not derived from \<open>Exception\<close> is not caught: the plugins after it are not
  called, and the exception leaves the manager.
\<close>

theorem plugin_hooks_firing:
  "notify_request_incoming pm req
     = firing ends_short_circuit (\<lambda>p. on_request_incoming p req) (map snd (plugins pm))
   \<and> notify_route_matching pm path method
     = firing ends_short_circuit (\<lambda>p. on_route_matching p path method) (map snd (plugins pm))
   \<and> notify_response_outgoing pm resp
     = firing ends_short_circuit (\<lambda>p. on_response_outgoing p resp) (map snd (plugins pm))
   \<and> notify_service_calling_engine pm sid engine_id action data
     = firing ends_observational (\<lambda>p. on_service_calling_engine p sid engine_id action data)
         (map snd (plugins pm))
   \<and> notify_engine_responding pm engine_id action eresp
     = firing ends_observational (\<lambda>p. on_engine_responding p engine_id action eresp)
         (map snd (plugins pm))"
  by (simp add: notify_request_incoming_def notify_route_matching_def
      notify_response_outgoing_def notify_service_calling_engine_def
      notify_engine_responding_def notify_until_response_firing notify_each_firing)

text \<open>
  Four plugins, registered in this order: one that raises, one that returns \<open>None\<close>, and
  two that answer. The request hook calls the first three, logs the exception of the
  first and returns the answer of the third; the observational hook calls all four.
\<close>

theorem plugin_hooks_firing_witness:
  "notify_request_incoming example_plugins (PStr ''GET /'')
     = (Inr (PStr ''blocked''),
        [(''Broken'', Inl (Raised ''boom'')), (''Silent'', Inr PNone),
         (''Blocker'', Inr (PStr ''blocked''))],
        [(''Broken'', Raised ''boom'')])
   \<and> notify_engine_responding example_plugins ''fileengine'' ''ping'' []
     = (Inr PNone,
        [(''Broken'', Inl (Raised ''boom'')), (''Silent'', Inr PNone),
         (''Blocker'', Inr (PStr ''blocked'')), (''Late'', Inr (PStr ''late''))],
        [(''Broken'', Raised ''boom'')])"
  using plugin_hooks_firing
    [where pm = example_plugins and req = "PStr ''GET /''" and engine_id = "''fileengine''"
       and action = "''ping''" and eresp = "[]"]
  by (simp add: firing_def called_def fired_def caught_def ends_short_circuit_def
      ends_observational_def answers_def escapes_def example_plugins_def constant_plugin_def)

text \<open>
  C9, as the claim states it, fails in two ways. A plugin whose request hook returns the
  empty dict stops the chain: the empty dict is the result, and the plugin after it,
  which would return a non-empty result, is not called. A plugin whose observational hook
  raises \<open>SystemExit\<close> is not caught: the plugin after it is not called.
\<close>

theorem plugin_hooks_empty_answer:
  "notify_request_incoming
     \<lparr> plugins = [(''Empty'', constant_plugin ''Empty'' (Inr (PDict []))),
                  (''Late'', constant_plugin ''Late'' (Inr (PStr ''late'')))] \<rparr>
     (PStr ''GET /'')
     = (Inr (PDict []), [(''Empty'', Inr (PDict []))], [])
   \<and> notify_engine_responding
     \<lparr> plugins = [(''Exit'', constant_plugin ''Exit'' (Inl SystemExit)),
                  (''Late'', constant_plugin ''Late'' (Inr (PStr ''late'')))] \<rparr>
     ''fileengine'' ''ping'' []
     = (Inl SystemExit, [(''Exit'', Inl SystemExit)], [])"
  by (simp add: notify_request_incoming_def notify_engine_responding_def constant_plugin_def)

section \<open>Route conflicts\<close>

lemma add_api_route_registered:
  assumes "add_api_route fw m sid path ep kw = (m1, True)"
  shows "\<exists>ms info. methods_of_kwargs fw kw = Inr ms
           \<and> map_of (api_registry m1) (route_full_path m1 sid path) = Some info
           \<and> ai_service_id info = sid \<and> ai_methods info = ms"
proof (cases "case routers m sid of None \<Rightarrow> create_router fw m sid [] | Some r \<Rightarrow> Inr (m, r)")
  case (Inl e)
  with assms show ?thesis by (simp add: add_api_route_def)
next
  case (Inr p)
  obtain m0 r where p: "p = (m0, r)" by (cases p)
  show ?thesis
  proof (cases "methods_of_kwargs fw kw")
    case (Inl e)
    with assms Inr p show ?thesis by (simp add: add_api_route_def)
  next
    case ms: (Inr ms)
    from assms Inr p ms show ?thesis
      by (auto simp: add_api_route_def Let_def route_full_path_def map_of_dict_set
               split: if_splits option.splits)
  qed
qed

lemma add_api_route_conflict:
  assumes "methods_of_kwargs fw kw = Inr ms"
    and "map_of (api_registry m) (route_full_path m sid path) = Some info"
    and "set ms \<inter> set (ai_methods info) \<noteq> {}"
  shows "snd (add_api_route fw m sid path ep kw) = False
       \<and> api_registry (fst (add_api_route fw m sid path ep kw)) = api_registry m"
proof (cases "routers m sid")
  case None
  show ?thesis
  proof (cases "fw_accepts_prefix fw []")
    case True
    with None assms show ?thesis
      by (simp add: add_api_route_def create_router_def normalize_path_def
          route_full_path_def check_path_conflict_def Let_def)
  next
    case False
    with None show ?thesis
      by (simp add: add_api_route_def create_router_def normalize_path_def)
  qed
next
  case (Some r)
  with assms show ?thesis
    by (simp add: add_api_route_def route_full_path_def check_path_conflict_def Let_def)
qed

text \<open>
  Two registrations, one right after the other: when the first was accepted and the
  second targets the same full path with a method list that shares a method with the
  first (the lists as registered, upper-cased), \<open>add_api_route\<close> returns \<open>False\<close> for the
  second, the registry is the same as before, and its entry for the path is the first
  one, with the first owner and the first method list.
\<close>

lemma add_api_route_second_rejected:
  assumes "add_api_route fw m sid1 path1 ep1 kw1 = (m1, True)"
    and "methods_of_kwargs fw kw1 = Inr ms1"
    and "methods_of_kwargs fw kw2 = Inr ms2"
    and "set ms1 \<inter> set ms2 \<noteq> {}"
    and "route_full_path m1 sid2 path2 = route_full_path m1 sid1 path1"
  shows "snd (add_api_route fw m1 sid2 path2 ep2 kw2) = False
       \<and> api_registry (fst (add_api_route fw m1 sid2 path2 ep2 kw2)) = api_registry m1
       \<and> (\<exists>info. map_of (api_registry m1) (route_full_path m1 sid1 path1) = Some info
                 \<and> ai_service_id info = sid1 \<and> ai_methods info = ms1)"
proof -
  from add_api_route_registered [OF assms(1)] assms(2)
  obtain info where info:
    "map_of (api_registry m1) (route_full_path m1 sid1 path1) = Some info"
    "ai_service_id info = sid1" "ai_methods info = ms1"
    by auto
  with assms(5)
  have "map_of (api_registry m1) (route_full_path m1 sid2 path2) = Some info" by simp
  moreover from assms(4) info(3) have "set ms2 \<inter> set (ai_methods info) \<noteq> {}" by auto
  ultimately have "snd (add_api_route fw m1 sid2 path2 ep2 kw2) = False
       \<and> api_registry (fst (add_api_route fw m1 sid2 path2 ep2 kw2)) = api_registry m1"
    using assms(3) by (intro add_api_route_conflict)
  with info show ?thesis by blast
qed

text \<open>
  C3. The claim: of two registrations that target the same full path with method sets
  that intersect, the later one is rejected, and the registry keeps the entry of the
  first owner. The registry holds one entry for a full path, and a registration of the
  path with other methods is accepted and replaces the entry. So after \<open>svc-a\<close> has
  registered \<open>GET /x\<close> and \<open>svc-b\<close> has registered \<open>POST /x\<close>, the registration of
  \<open>GET /x\<close> by \<open>svc-c\<close> finds no conflict: it is accepted, although \<open>svc-a\<close> registered
  the same path and method before, and the listing holds the entry of \<open>svc-c\<close> alone.
\<close>

theorem add_api_route_third_accepted:
  "snd (add_api_route permissive_framework empty_mapper ''svc-a'' ''/x'' (Some ''a_x'')
          [(''methods'', PList [PStr ''GET''])]) = True
   \<and> map (\<lambda>i. (ai_full_path i, ai_service_id i, ai_methods i))
        (list_apis (fst (add_api_route permissive_framework empty_mapper ''svc-a'' ''/x''
                           (Some ''a_x'') [(''methods'', PList [PStr ''GET''])])))
     = [(''/x'', ''svc-a'', [''GET''])]
   \<and> snd (add_api_route permissive_framework
          (fst (add_api_route permissive_framework empty_mapper ''svc-a'' ''/x''
                  (Some ''a_x'') [(''methods'', PList [PStr ''GET''])]))
          ''svc-b'' ''/x'' (Some ''b_x'') [(''methods'', PList [PStr ''POST''])])
     = True
   \<and> snd (add_api_route permissive_framework
          (fst (add_api_route permissive_framework
                  (fst (add_api_route permissive_framework empty_mapper ''svc-a'' ''/x''
                          (Some ''a_x'') [(''methods'', PList [PStr ''GET''])]))
                  ''svc-b'' ''/x'' (Some ''b_x'') [(''methods'', PList [PStr ''POST''])]))
          ''svc-c'' ''/x'' (Some ''c_x'') [(''methods'', PList [PStr ''GET''])])
     = True
   \<and> map (\<lambda>i. (ai_full_path i, ai_service_id i, ai_methods i))
        (list_apis (fst (add_api_route permissive_framework
          (fst (add_api_route permissive_framework
                  (fst (add_api_route permissive_framework empty_mapper ''svc-a'' ''/x''
                          (Some ''a_x'') [(''methods'', PList [PStr ''GET''])]))
                  ''svc-b'' ''/x'' (Some ''b_x'') [(''methods'', PList [PStr ''POST''])]))
          ''svc-c'' ''/x'' (Some ''c_x'') [(''methods'', PList [PStr ''GET''])])))
     = [(''/x'', ''svc-c'', [''GET''])]"
  by (simp add: add_api_route_def create_router_def normalize_path_def startswith_def
      endswith_def methods_of_kwargs_def check_path_conflict_def permissive_framework_def
      empty_mapper_def dict_set_def ascii_upper_def ascii_upper_char_def kw_get_def
      list_apis_def Let_def)

section \<open>Engine routes\<close>

text \<open>
  The pass over an engine leaves the main router as it is, for every info and in every
  state of the mapper: the router of an engine is not included in the router that the
  gateway mounts.
\<close>

lemma register_engine_api_frame:
  "main_router (fst (register_engine_api fw m sid api np)) = main_router m
   \<and> routers (fst (register_engine_api fw m sid api np)) = routers m"
  by (auto simp: register_engine_api_def split: sum.splits prod.splits)

lemma register_engine_apis_frame:
  "main_router (fst (register_engine_apis fw m sid np xs)) = main_router m
   \<and> routers (fst (register_engine_apis fw m sid np xs)) = routers m"
proof (induction xs arbitrary: m)
  case Nil
  show ?case by simp
next
  case (Cons api xs)
  obtain m1 err where step: "register_engine_api fw m sid api np = (m1, err)"
    by (cases "register_engine_api fw m sid api np")
  from register_engine_api_frame [of fw m sid api np] step
  have frame: "main_router m1 = main_router m" "routers m1 = routers m" by simp_all
  show ?case
  proof (cases err)
    case None
    with step frame Cons.IH [of m1] show ?thesis by simp
  next
    case (Some e)
    with step frame show ?thesis by simp
  qed
qed

lemma map_engine_service_main_router:
  "main_router (fst (map_engine_service fw m sid info)) = main_router m"
proof (cases "create_router fw m sid (normalize_path (ENGINE_API_PREFIX sid))")
  case (Inl e)
  then show ?thesis by (simp add: map_engine_service_def Let_def)
next
  case (Inr p)
  obtain m1 r where p: "p = (m1, r)" by (cases p)
  from Inr p have m1: "main_router m1 = main_router m"
    by (auto simp: create_router_def Let_def split: if_splits)
  show ?thesis
  proof (cases "py_iter (kw_get info ''apis'' (PList []))")
    case (Inl e)
    with Inr p m1 show ?thesis by (simp add: map_engine_service_def Let_def)
  next
    case xs: (Inr xs)
    from register_engine_apis_frame [of fw m1 sid "normalize_path (ENGINE_API_PREFIX sid)" xs] m1
    have "main_router (fst (register_engine_apis fw m1 sid
            (normalize_path (ENGINE_API_PREFIX sid)) xs)) = main_router m"
      by simp
    with Inr p xs show ?thesis by (simp add: map_engine_service_def Let_def)
  qed
qed

lemmas mapping_defs =
  map_apis_def list_services_def clear_apis_def map_all_apis_def map_engine_service_def
  create_router_def normalize_path_def startswith_def endswith_def kw_get_def py_iter_def
  ENGINE_API_PREFIX_def list_apis_def get_service_db_def permissive_framework_def
  empty_mapper_def no_businesses_def

text \<open>
  C7. The claim: for every engine that \<open>map_all_apis\<close> processes, the documentation-only
  routes of the engine are recorded in the API registry under the engine-scoped prefix,
  and so appear in the listing. \<open>_map_engine_service\<close> reads the routes from the entry
  \<open>apis\<close> of the engine's info. The info of a discovered engine is its metadata, which
  has no such entry: for every engine and in every state of the mapper the pass leaves
  the registry as it is, and the routes that \<open>get_api_routes()\<close> returns are not read.

  For the engine of the manifest \<open>fileengine\<close> whose class returns the route \<open>GET /posts\<close>
  from \<open>get_api_routes()\<close>: discovery reports the engine valid, the item that
  \<open>list_services\<close> gives for it has the metadata as its info, \<open>map_apis\<close> reports the engine
  mapped, and the listing of the registry is empty. Declaring the route in the section
  \<open>apis\<close> of the manifest does not record it either: the validator raises on the section,
  and the engine is reported invalid.
\<close>

theorem map_apis_engine_routes_unrecorded:
  "api_registry (fst (map_engine_service fw m sid (get_metadata e))) = api_registry m
   \<and> cls_get_api_routes documented_class
     = [PDict [(''path'', PStr ''/posts''), (''method'', PStr ''GET'')]]
   \<and> snd (process_engine (fileengine_env documented_class) empty_registry ''FileEngine'')
     = Inr \<lparr> r_service_id = ''3f2b8c1e-5d4a-4e6f-9a7b-0c1d2e3f4a5b'',
             r_service_name = ''FileEngine'', r_version = Some ''1.0.0'',
             r_engine_type = Some ''kernel'', r_status = ''valid'', r_reason = None \<rparr>
   \<and> list_services
       (fst (process_engine (fileengine_env documented_class) empty_registry ''FileEngine''))
       None
     = Inr [\<lparr> sv_service_id = ''3f2b8c1e-5d4a-4e6f-9a7b-0c1d2e3f4a5b'',
              sv_type = ''engine'',
              sv_info =
                [(''service_id'', PStr ''3f2b8c1e-5d4a-4e6f-9a7b-0c1d2e3f4a5b''),
                 (''service_name'', PStr ''FileEngine''),
                 (''version'', PStr ''1.0.0''),
                 (''engine_type'', PStr ''kernel''),
                 (''status'', PStr ''running''),
                 (''error_message'', PNone),
                 (''config'', PDict [])] \<rparr>]
   \<and> snd (map_apis permissive_framework no_businesses
            (fst (process_engine (fileengine_env documented_class) empty_registry
                    ''FileEngine''))
            empty_mapper)
     = Inr ([''3f2b8c1e-5d4a-4e6f-9a7b-0c1d2e3f4a5b''], [])
   \<and> list_apis (fst (map_apis permissive_framework no_businesses
            (fst (process_engine (fileengine_env documented_class) empty_registry
                    ''FileEngine''))
            empty_mapper))
     = []
   \<and> snd (process_engine
            ((fileengine_env documented_class)
               \<lparr>env_config := Some (Loaded (fileengine_manifest
                   \<lparr>mf_apis := Some (PList [PDict [(''path'', PStr ''/posts''),
                                                   (''method'', PStr ''GET'')]])\<rparr>))\<rparr>)
            empty_registry ''FileEngine'')
     = Inr \<lparr> r_service_id = ''FileEngine'', r_service_name = ''FileEngine'',
             r_version = None, r_engine_type = None, r_status = ''invalid'',
             r_reason = Some (ErrText ''Error loading engine: '' AttributeError) \<rparr>"
proof (intro conjI)
  show "api_registry (fst (map_engine_service fw m sid (get_metadata e))) = api_registry m"
    by (simp add: map_engine_service_def get_metadata_def kw_get_def py_iter_def
        create_router_def Let_def)
qed (simp_all add: discovery_defs mapping_defs)

end
